theory Spec2Isabelle
  imports Main "HOL-Library.Word"
begin

unbundle bit_operations_syntax

section \<open>Terminal attributes\<close>

text \<open>
  The program (\<^verbatim>\<open>kilo.c\<close>) uses \<^verbatim>\<open>struct termios\<close> and the flag constants of
  the platform header \<^verbatim>\<open>termios.h\<close>, which is not part of the repository. The record
  below has the fields of the Linux/glibc structure: four flag words of type
  \<^verbatim>\<open>tcflag_t\<close> (unsigned int), the line discipline, the array of control characters
  \<^verbatim>\<open>c_cc[NCCS]\<close> (unsigned char) and the two speeds.
\<close>

type_synonym tcflag_t = "32 word"
type_synonym cc_t = "8 word"
type_synonym speed_t = "32 word"

record termios =
  c_iflag :: tcflag_t
  c_oflag :: tcflag_t
  c_cflag :: tcflag_t
  c_lflag :: tcflag_t
  c_line :: cc_t
  c_cc :: "cc_t list"
  c_ispeed :: speed_t
  c_ospeed :: speed_t

text \<open>
  The constants, with the values of the Linux header (octal there). The source's comment
  on \<^verbatim>\<open>ECHO\<close> (``defined as 00000000000000000000000000001000'') agrees with the value 8.
\<close>

definition BRKINT :: tcflag_t where "BRKINT = 0x2"
definition ICRNL :: tcflag_t where "ICRNL = 0x100"
definition INPCK :: tcflag_t where "INPCK = 0x10"
definition ISTRIP :: tcflag_t where "ISTRIP = 0x20"
definition IXON :: tcflag_t where "IXON = 0x400"
definition OPOST :: tcflag_t where "OPOST = 0x1"
definition CSIZE :: tcflag_t where "CSIZE = 0x30"
definition CS8 :: tcflag_t where "CS8 = 0x30"
definition ECHO :: tcflag_t where "ECHO = 0x8"
definition ICANON :: tcflag_t where "ICANON = 0x2"
definition IEXTEN :: tcflag_t where "IEXTEN = 0x8000"
definition ISIG :: tcflag_t where "ISIG = 0x1"
definition VMIN :: nat where "VMIN = 6"
definition VTIME :: nat where "VTIME = 5"
definition NCCS :: nat where "NCCS = 32"
definition STDIN_FILENO :: int where "STDIN_FILENO = 0"
definition TCSAFLUSH :: int where "TCSAFLUSH = 2"

lemmas termios_consts =
  BRKINT_def ICRNL_def INPCK_def ISTRIP_def IXON_def OPOST_def CSIZE_def CS8_def
  ECHO_def ICANON_def IEXTEN_def ISIG_def VMIN_def VTIME_def NCCS_def

text \<open>
  Lines 39 and 87--92 of \<^verbatim>\<open>enableRawMode\<close>: the local \<^verbatim>\<open>raw\<close> is a copy of
  \<^verbatim>\<open>orig_termios\<close> with flags cleared or set and two control characters overwritten.
  Both indices are below \<^verbatim>\<open>NCCS\<close>, so the writes stay inside the array.
\<close>

definition raw_termios :: "termios \<Rightarrow> termios" where
  "raw_termios orig =
     (let raw = orig;
          raw = raw\<lparr>c_iflag := c_iflag raw AND NOT (BRKINT OR ICRNL OR INPCK OR ISTRIP OR IXON)\<rparr>;
          raw = raw\<lparr>c_oflag := c_oflag raw AND NOT OPOST\<rparr>;
          raw = raw\<lparr>c_cflag := c_cflag raw OR CS8\<rparr>;
          raw = raw\<lparr>c_lflag := c_lflag raw AND NOT (ECHO OR ICANON OR IEXTEN OR ISIG)\<rparr>;
          raw = raw\<lparr>c_cc := (c_cc raw)[VMIN := 0]\<rparr>;
          raw = raw\<lparr>c_cc := (c_cc raw)[VTIME := 1]\<rparr>
      in raw)"

text \<open>A global of static storage duration starts zeroed.\<close>

definition zero_termios :: termios where
  "zero_termios =
     \<lparr>c_iflag = 0, c_oflag = 0, c_cflag = 0, c_lflag = 0, c_line = 0,
      c_cc = replicate NCCS 0, c_ispeed = 0, c_ospeed = 0\<rparr>"

text \<open>
  A concrete snapshot for evaluation: the attributes of an ordinary Linux terminal in
  cooked mode (\<^verbatim>\<open>brkint icrnl ixon\<close>, \<^verbatim>\<open>opost onlcr\<close>, \<^verbatim>\<open>cs8 cread\<close>,
  \<^verbatim>\<open>isig icanon iexten echo\<close>, 38400 baud).
\<close>

definition cooked_termios :: termios where
  "cooked_termios =
     \<lparr>c_iflag = 0x6D02, c_oflag = 0x5, c_cflag = 0x4BF, c_lflag = 0x8A3B, c_line = 0,
      c_cc = [3, 28, 127, 21, 4, 0, 1, 0, 17, 19, 26, 0, 18, 15, 23, 22,
              0, 0, 0, 0, 0, 0, 0, 0, 0, 0, 0, 0, 0, 0, 0, 0],
      c_ispeed = 15, c_ospeed = 15\<rparr>"

section \<open>The process and its environment\<close>

text \<open>
  The program talks to the terminal through \<^verbatim>\<open>tcgetattr\<close>, \<^verbatim>\<open>tcsetattr\<close> and
  \<^verbatim>\<open>read\<close>, and to the C runtime through \<^verbatim>\<open>atexit\<close>, \<^verbatim>\<open>exit\<close>,
  \<^verbatim>\<open>perror\<close> and \<^verbatim>\<open>printf\<close>. None of them is defined in the repository; they are
  modelled by their documented behaviour on a state \<open>world\<close> that holds the program's
  global, the handlers registered with \<^verbatim>\<open>atexit\<close>, the attributes the kernel keeps
  for the terminal on descriptor 0, and the environment's choices: whether each
  successive attribute call fails (and with which \<^verbatim>\<open>errno\<close>), and what each successive
  \<^verbatim>\<open>read\<close> meets. Every library call is appended to \<open>trace\<close>, in order.
\<close>

type_synonym errno_t = nat

datatype handler = DisableRawMode

datatype stdin_event =
    Byte char           \<comment> \<open>one byte arrives within the timeout: \<^verbatim>\<open>read\<close> returns 1\<close>
  | Timeout             \<comment> \<open>no byte within the timeout: \<^verbatim>\<open>read\<close> returns 0\<close>
  | Eof                 \<comment> \<open>end of file: \<^verbatim>\<open>read\<close> returns 0\<close>
  | ReadError errno_t   \<comment> \<open>\<^verbatim>\<open>read\<close> returns -1\<close>
  | Signal              \<comment> \<open>a terminating signal is delivered while the process waits\<close>

datatype event =
    Ev_tcgetattr int "errno_t option"
  | Ev_tcsetattr int int termios "errno_t option"
  | Ev_atexit handler
  | Ev_read stdin_event
  | Ev_printf string
  | Ev_perror string errno_t

record world =
  orig_termios :: termios
  atexit_fns :: "handler list"
  tty :: termios
  tc_outcomes :: "errno_t option list"
  stdin_events :: "stdin_event list"
  errno :: errno_t
  trace :: "event list"

text \<open>
  How a C function ends: it returns a value, it calls \<^verbatim>\<open>exit\<close> (which never returns
  to its caller: the status travels to \<open>exit\<close> below), or the process is killed.
\<close>

datatype 'a result = Returns 'a | Exits int | Killed

datatype ending = Exited int | Signaled

definition init_world :: "termios \<Rightarrow> errno_t option list \<Rightarrow> stdin_event list \<Rightarrow> world" where
  "init_world A tcs evs =
     \<lparr>orig_termios = zero_termios, atexit_fns = [], tty = A, tc_outcomes = tcs,
      stdin_events = evs, errno = 0, trace = []\<rparr>"

text \<open>The next scheduled outcome of an attribute call; an exhausted schedule means success.\<close>

fun next_outcome :: "errno_t option list \<Rightarrow> errno_t option \<times> errno_t option list" where
  "next_outcome [] = (None, [])"
| "next_outcome (x # xs) = (x, xs)"

text \<open>
  \<^verbatim>\<open>tcgetattr(fd, &buf)\<close>: on success the buffer receives the terminal's attributes and
  the call returns 0; on failure it returns -1, sets \<^verbatim>\<open>errno\<close> and leaves the buffer as
  it was. The function takes the buffer's old content and returns the new one.
\<close>

definition tcgetattr :: "int \<Rightarrow> termios \<Rightarrow> world \<Rightarrow> (int \<times> termios) \<times> world" where
  "tcgetattr fd buf w =
     (case next_outcome (tc_outcomes w) of
        (None, rest) \<Rightarrow>
          ((0, tty w), w\<lparr>tc_outcomes := rest, trace := trace w @ [Ev_tcgetattr fd None]\<rparr>)
      | (Some e, rest) \<Rightarrow>
          ((-1, buf),
           w\<lparr>tc_outcomes := rest, errno := e, trace := trace w @ [Ev_tcgetattr fd (Some e)]\<rparr>))"

text \<open>
  \<^verbatim>\<open>tcsetattr(fd, action, &attrs)\<close>: on success the terminal has the given attributes
  (every requested change is taken to be carried out); on failure nothing changes. What
  \<^verbatim>\<open>TCSAFLUSH\<close> discards of the pending input is part of the schedule \<open>stdin_events\<close>.
\<close>

definition tcsetattr :: "int \<Rightarrow> int \<Rightarrow> termios \<Rightarrow> world \<Rightarrow> int \<times> world" where
  "tcsetattr fd action attrs w =
     (case next_outcome (tc_outcomes w) of
        (None, rest) \<Rightarrow>
          (0, w\<lparr>tty := attrs, tc_outcomes := rest,
                trace := trace w @ [Ev_tcsetattr fd action attrs None]\<rparr>)
      | (Some e, rest) \<Rightarrow>
          (-1, w\<lparr>tc_outcomes := rest, errno := e,
                 trace := trace w @ [Ev_tcsetattr fd action attrs (Some e)]\<rparr>))"

text \<open>\<^verbatim>\<open>atexit(f)\<close>: the handler is put in front of the list; the last registered runs first.\<close>

definition atexit :: "handler \<Rightarrow> world \<Rightarrow> world" where
  "atexit f w = w\<lparr>atexit_fns := f # atexit_fns w, trace := trace w @ [Ev_atexit f]\<rparr>"

text \<open>\<^verbatim>\<open>perror(s)\<close>: a line with \<open>s\<close> and the message of the current \<^verbatim>\<open>errno\<close> on standard error.\<close>

definition perror :: "string \<Rightarrow> world \<Rightarrow> world" where
  "perror s w = w\<lparr>trace := trace w @ [Ev_perror s (errno w)]\<rparr>"

definition printf :: "string \<Rightarrow> world \<Rightarrow> world" where
  "printf s w = w\<lparr>trace := trace w @ [Ev_printf s]\<rparr>"

text \<open>
  \<^verbatim>\<open>read(fd, &c, 1)\<close>: takes the old content of the one-byte buffer and returns the
  return value with the new content. Once the schedule is exhausted no input ever
  arrives: with \<^verbatim>\<open>VMIN = 0\<close> and \<^verbatim>\<open>VTIME = 1\<close> every further call times out.
\<close>

definition read :: "int \<Rightarrow> char \<Rightarrow> world \<Rightarrow> (int \<times> char) result \<times> world" where
  "read fd c w =
     (case stdin_events w of
        [] \<Rightarrow> (Returns (0, c), w\<lparr>trace := trace w @ [Ev_read Timeout]\<rparr>)
      | ev # rest \<Rightarrow>
          (let w' = w\<lparr>stdin_events := rest, trace := trace w @ [Ev_read ev]\<rparr> in
           case ev of
             Byte b \<Rightarrow> (Returns (1, b), w')
           | Timeout \<Rightarrow> (Returns (0, c), w')
           | Eof \<Rightarrow> (Returns (0, c), w')
           | ReadError e \<Rightarrow> (Returns (-1, c), w'\<lparr>errno := e\<rparr>)
           | Signal \<Rightarrow> (Killed, w')))"

section \<open>The program\<close>

text \<open>Lines 9--12.\<close>

definition die :: "string \<Rightarrow> world \<Rightarrow> 'a result \<times> world" where
  "die s w = (Exits 1, perror s w)"

text \<open>Lines 14--18.\<close>

definition disableRawMode :: "world \<Rightarrow> unit result \<times> world" where
  "disableRawMode w =
     (case tcsetattr STDIN_FILENO TCSAFLUSH (orig_termios w) w of
        (r, w') \<Rightarrow> if r = -1 then die ''tcsetattr'' w' else (Returns (), w'))"

text \<open>Lines 29--99.\<close>

definition enableRawMode :: "world \<Rightarrow> unit result \<times> world" where
  "enableRawMode w =
     (case tcgetattr STDIN_FILENO (orig_termios w) w of
        ((r, buf), w1) \<Rightarrow>
          (let w1 = w1\<lparr>orig_termios := buf\<rparr> in
           if r = -1 then die ''tcgetattr'' w1
           else
             (let w2 = atexit DisableRawMode w1;
                  raw = raw_termios (orig_termios w2)
              in case tcsetattr STDIN_FILENO TCSAFLUSH raw w2 of
                   (r', w3) \<Rightarrow> if r' = -1 then die ''tcsetattr'' w3 else (Returns (), w3))))"

text \<open>
  \<^verbatim>\<open>exit(status)\<close>: the handlers registered with \<^verbatim>\<open>atexit\<close> run, the most recent
  first, each removed from the list before it is called; then the process ends with the
  status. A handler that itself calls \<^verbatim>\<open>exit\<close> (as \<^verbatim>\<open>disableRawMode\<close> does through
  \<^verbatim>\<open>die\<close>) is undefined in ISO C; the model follows glibc, where the inner call runs the
  handlers that remain and ends the process with the inner status.
\<close>

fun call_handler :: "handler \<Rightarrow> world \<Rightarrow> unit result \<times> world" where
  "call_handler DisableRawMode w = disableRawMode w"

function exit :: "int \<Rightarrow> world \<Rightarrow> ending \<times> world" where
  "exit status w =
     (case atexit_fns w of
        [] \<Rightarrow> (Exited status, w)
      | f # fs \<Rightarrow>
          (case call_handler f (w\<lparr>atexit_fns := fs\<rparr>) of
             (Returns _, w') \<Rightarrow> exit status w'
           | (Exits status', w') \<Rightarrow> exit status' w'
           | (Killed, w') \<Rightarrow> (Signaled, w')))"
  by pat_completeness auto
termination
proof -
  have keep: "atexit_fns (snd (call_handler f v)) = atexit_fns v" for f v
    by (cases f; cases "next_outcome (tc_outcomes v)")
       (auto simp: disableRawMode_def tcsetattr_def die_def perror_def split: option.splits)
  have shrinks: "length (atexit_fns w') < length (atexit_fns w)"
    if "atexit_fns w = f # fs" and "(r, w') = call_handler f (w\<lparr>atexit_fns := fs\<rparr>)"
    for w w' :: world and f fs and r :: "unit result"
  proof -
    from that(2) have "w' = snd (call_handler f (w\<lparr>atexit_fns := fs\<rparr>))"
      by (metis snd_conv)
    then have "atexit_fns w' = fs"
      by (simp add: keep)
    with that(1) show ?thesis by simp
  qed
  show ?thesis
  proof (relation "measure (\<lambda>(status, w). length (atexit_fns w))", goal_cases)
    case 1
    show ?case by simp
  next
    case (2 status w f fs r w' u)
    from shrinks [OF 2(1) 2(2)] show ?case by simp
  next
    case (3 status w f fs r w' status')
    from shrinks [OF 3(1) 3(2)] show ?case by simp
  qed
qed

declare exit.simps [simp del]

text \<open>
  Lines 105--116, one turn of the loop. The return value of \<^verbatim>\<open>read\<close> is not looked at.
  \<^verbatim>\<open>char\<close> is signed on the platform, so a byte from 128 on is a negative \<^verbatim>\<open>int\<close>.
  \<^verbatim>\<open>iscntrl\<close> is that of the C locale; for a negative argument, which ISO C leaves
  undefined, it answers no, as the table of glibc does.
\<close>

definition int_of_char :: "char \<Rightarrow> int" where
  "int_of_char c = (let n = of_char c in if n < 128 then n else n - 256)"

definition iscntrl :: "int \<Rightarrow> bool" where
  "iscntrl n = (0 \<le> n \<and> n < 32 \<or> n = 127)"

fun dec :: "nat \<Rightarrow> string" where
  "dec n = (if n < 10 then [char_of (48 + n)] else dec (n div 10) @ [char_of (48 + n mod 10)])"

declare dec.simps [simp del]

definition fmt_d :: "int \<Rightarrow> string" where
  "fmt_d i = (if i < 0 then CHR ''-'' # dec (nat (- i)) else dec (nat i))"

definition crlf :: string where
  "crlf = [CHR 0x0D, CHR 0x0A]"

definition loop_body :: "world \<Rightarrow> bool result \<times> world" where
  "loop_body w =
     (let c = CHR 0x00 in
      case read STDIN_FILENO c w of
        (Killed, w1) \<Rightarrow> (Killed, w1)
      | (Exits st, w1) \<Rightarrow> (Exits st, w1)
      | (Returns (n, c), w1) \<Rightarrow>
          (let w2 =
             (if iscntrl (int_of_char c) then printf (fmt_d (int_of_char c) @ crlf) w1
              else printf (fmt_d (int_of_char c) @ '' ('' @ [CHR 0x27, c, CHR 0x27] @ '')'' @ crlf) w1)
           in (Returns (c = CHR ''q''), w2)))"

text \<open>
  Lines 104--117. The loop may run forever; then \<open>main_loop\<close> is \<open>None\<close>. The flag
  returned by \<open>loop_body\<close> is the \<^verbatim>\<open>break\<close>.
\<close>

partial_function (option) main_loop :: "world \<Rightarrow> (int result \<times> world) option" where
  "main_loop w =
     (case loop_body w of
        (Returns brk, w') \<Rightarrow> if brk then Some (Returns 0, w') else main_loop w'
      | (Exits st, w') \<Rightarrow> Some (Exits st, w')
      | (Killed, w') \<Rightarrow> Some (Killed, w'))"

text \<open>Lines 101--120.\<close>

definition main :: "world \<Rightarrow> (int result \<times> world) option" where
  "main w =
     (case enableRawMode w of
        (Returns _, w') \<Rightarrow> main_loop w'
      | (Exits st, w') \<Rightarrow> Some (Exits st, w')
      | (Killed, w') \<Rightarrow> Some (Killed, w'))"

text \<open>The C runtime calls \<^verbatim>\<open>main\<close> and passes what it returns to \<^verbatim>\<open>exit\<close>.\<close>

definition run_program :: "world \<Rightarrow> (ending \<times> world) option" where
  "run_program w =
     (case main w of
        None \<Rightarrow> None
      | Some (Returns st, w') \<Rightarrow> Some (exit st w')
      | Some (Exits st, w') \<Rightarrow> Some (exit st w')
      | Some (Killed, w') \<Rightarrow> Some (Signaled, w'))"

section \<open>Reading the trace\<close>

text \<open>The events of the loop: a \<^verbatim>\<open>read\<close> or a \<^verbatim>\<open>printf\<close>.\<close>

fun is_io :: "event \<Rightarrow> bool" where
  "is_io (Ev_read _) = True"
| "is_io (Ev_printf _) = True"
| "is_io _ = False"

text \<open>What the trace shows on standard output and on standard error.\<close>

fun printed :: "event \<Rightarrow> string" where
  "printed (Ev_printf s) = s"
| "printed _ = []"

definition stdout_of :: "event list \<Rightarrow> string" where
  "stdout_of tr = concat (map printed tr)"

fun is_perror :: "event \<Rightarrow> bool" where
  "is_perror (Ev_perror _ _) = True"
| "is_perror _ = False"

definition stderr_of :: "event list \<Rightarrow> event list" where
  "stderr_of tr = filter is_perror tr"

text \<open>The attribute calls of a trace.\<close>

fun is_tcgetattr :: "event \<Rightarrow> bool" where
  "is_tcgetattr (Ev_tcgetattr _ _) = True"
| "is_tcgetattr _ = False"

fun is_tcsetattr :: "event \<Rightarrow> bool" where
  "is_tcsetattr (Ev_tcsetattr _ _ _ _) = True"
| "is_tcsetattr _ = False"

fun is_read :: "event \<Rightarrow> bool" where
  "is_read (Ev_read _) = True"
| "is_read _ = False"

text \<open>What \<^verbatim>\<open>perror\<close> adds after an attribute call, by the call's outcome.\<close>

fun diagnostic :: "string \<Rightarrow> errno_t option \<Rightarrow> event list" where
  "diagnostic s None = []"
| "diagnostic s (Some e) = [Ev_perror s e]"

text \<open>An attribute call that failed.\<close>

fun failed_call :: "event \<Rightarrow> bool" where
  "failed_call (Ev_tcgetattr _ (Some _)) = True"
| "failed_call (Ev_tcsetattr _ _ _ (Some _)) = True"
| "failed_call _ = False"

section \<open>What each function does, by the environment's choices\<close>

lemmas prog_defs =
  init_world_def enableRawMode_def disableRawMode_def tcgetattr_def tcsetattr_def atexit_def
  die_def perror_def Let_def

lemmas loop_defs = loop_body_def read_def printf_def int_of_char_def iscntrl_def

lemma disableRawMode_ok:
  "next_outcome (tc_outcomes w) = (None, rest) \<Longrightarrow>
   disableRawMode w =
     (Returns (),
      w\<lparr>tty := orig_termios w, tc_outcomes := rest,
        trace := trace w @ [Ev_tcsetattr STDIN_FILENO TCSAFLUSH (orig_termios w) None]\<rparr>)"
  by (simp add: disableRawMode_def tcsetattr_def)

lemma disableRawMode_fail:
  "next_outcome (tc_outcomes w) = (Some e, rest) \<Longrightarrow>
   disableRawMode w =
     (Exits 1,
      w\<lparr>tc_outcomes := rest, errno := e,
        trace := trace w @ [Ev_tcsetattr STDIN_FILENO TCSAFLUSH (orig_termios w) (Some e),
                            Ev_perror ''tcsetattr'' e]\<rparr>)"
  by (simp add: disableRawMode_def tcsetattr_def die_def perror_def)

lemma enableRawMode_capture_fail:
  "next_outcome (tc_outcomes w) = (Some e, rest) \<Longrightarrow>
   enableRawMode w =
     (Exits 1,
      w\<lparr>tc_outcomes := rest, errno := e,
        trace := trace w @ [Ev_tcgetattr STDIN_FILENO (Some e), Ev_perror ''tcgetattr'' e]\<rparr>)"
  by (simp add: enableRawMode_def tcgetattr_def die_def perror_def)

lemma enableRawMode_apply_fail:
  "next_outcome (tc_outcomes w) = (None, rest) \<Longrightarrow> next_outcome rest = (Some e, rest') \<Longrightarrow>
   enableRawMode w =
     (Exits 1,
      w\<lparr>orig_termios := tty w, atexit_fns := DisableRawMode # atexit_fns w,
        tc_outcomes := rest', errno := e,
        trace := trace w @ [Ev_tcgetattr STDIN_FILENO None, Ev_atexit DisableRawMode,
                            Ev_tcsetattr STDIN_FILENO TCSAFLUSH (raw_termios (tty w)) (Some e),
                            Ev_perror ''tcsetattr'' e]\<rparr>)"
  by (simp add: enableRawMode_def tcgetattr_def tcsetattr_def atexit_def die_def perror_def)

lemma enableRawMode_ok:
  "next_outcome (tc_outcomes w) = (None, rest) \<Longrightarrow> next_outcome rest = (None, rest') \<Longrightarrow>
   enableRawMode w =
     (Returns (),
      w\<lparr>orig_termios := tty w, atexit_fns := DisableRawMode # atexit_fns w,
        tty := raw_termios (tty w), tc_outcomes := rest',
        trace := trace w @ [Ev_tcgetattr STDIN_FILENO None, Ev_atexit DisableRawMode,
                            Ev_tcsetattr STDIN_FILENO TCSAFLUSH (raw_termios (tty w)) None]\<rparr>)"
  by (simp add: enableRawMode_def tcgetattr_def tcsetattr_def atexit_def Let_def)

lemma exit_no_handlers: "atexit_fns w = [] \<Longrightarrow> exit st w = (Exited st, w)"
  by (simp add: exit.simps)

lemma exit_restore_ok:
  "atexit_fns w = [DisableRawMode] \<Longrightarrow> next_outcome (tc_outcomes w) = (None, rest) \<Longrightarrow>
   exit st w =
     (Exited st,
      w\<lparr>atexit_fns := [], tty := orig_termios w, tc_outcomes := rest,
        trace := trace w @ [Ev_tcsetattr STDIN_FILENO TCSAFLUSH (orig_termios w) None]\<rparr>)"
  by (subst exit.simps) (simp add: disableRawMode_ok exit_no_handlers)

lemma exit_restore_fail:
  "atexit_fns w = [DisableRawMode] \<Longrightarrow> next_outcome (tc_outcomes w) = (Some e, rest) \<Longrightarrow>
   exit st w =
     (Exited 1,
      w\<lparr>atexit_fns := [], tc_outcomes := rest, errno := e,
        trace := trace w @ [Ev_tcsetattr STDIN_FILENO TCSAFLUSH (orig_termios w) (Some e),
                            Ev_perror ''tcsetattr'' e]\<rparr>)"
  by (subst exit.simps) (simp add: disableRawMode_fail exit_no_handlers)

lemma fmt_d_0: "fmt_d 0 = ''0''"
  by code_simp

lemma loop_body_nil:
  "stdin_events w = [] \<Longrightarrow>
   loop_body w =
     (Returns False, w\<lparr>trace := trace w @ [Ev_read Timeout, Ev_printf (''0'' @ crlf)]\<rparr>)"
  by (simp add: loop_body_def read_def printf_def int_of_char_def iscntrl_def fmt_d_0)

lemma loop_body_frame:
  assumes "loop_body w = (r, w')"
  shows "orig_termios w' = orig_termios w \<and> atexit_fns w' = atexit_fns w \<and> tty w' = tty w \<and>
         tc_outcomes w' = tc_outcomes w \<and>
         (\<exists>tr. trace w' = trace w @ tr \<and> (\<forall>e \<in> set tr. is_io e))"
  using assms
  by (auto simp: loop_body_def read_def printf_def Let_def
           split: list.splits stdin_event.splits if_splits)

lemma main_loop_frame:
  assumes "main_loop w = Some (r, w')"
  shows "orig_termios w' = orig_termios w \<and> atexit_fns w' = atexit_fns w \<and> tty w' = tty w \<and>
         tc_outcomes w' = tc_outcomes w \<and>
         (\<exists>tr. trace w' = trace w @ tr \<and> (\<forall>e \<in> set tr. is_io e))"
proof -
  let ?P = "\<lambda>w y. orig_termios (snd y) = orig_termios w \<and> atexit_fns (snd y) = atexit_fns w \<and>
         tty (snd y) = tty w \<and> tc_outcomes (snd y) = tc_outcomes w \<and>
         (\<exists>tr. trace (snd y) = trace w @ tr \<and> (\<forall>e \<in> set tr. is_io e))"
  have "?P w (r, w')"
  proof (rule main_loop.raw_induct [where P = ?P, OF _ assms])
    fix f :: "world \<Rightarrow> (int result \<times> world) option" and w :: world
      and y :: "int result \<times> world"
    assume IH: "\<And>x y. f x = Some y \<Longrightarrow> ?P x y"
      and step: "(case loop_body w of
              (Returns brk, w') \<Rightarrow> if brk then Some (Returns 0, w') else f w'
            | (Exits st, w') \<Rightarrow> Some (Exits st, w')
            | (Killed, w') \<Rightarrow> Some (Killed, w')) = Some y"
    obtain b w1 where lb: "loop_body w = (b, w1)"
      by (cases "loop_body w")
    note fr = loop_body_frame [OF lb]
    show "?P w y"
    proof (cases "b = Returns False")
      case True
      with step lb have "f w1 = Some y" by simp
      from IH [OF this] fr show ?thesis
        by (auto simp: ball_Un)
    next
      case False
      with step lb have "snd y = w1"
        by (cases b) (auto split: if_splits)
      with fr show ?thesis by simp
    qed
  qed
  then show ?thesis by simp
qed

lemma loop_body_step:
  assumes "stdin_events w = ev # rest"
  shows "stdin_events (snd (loop_body w)) = rest \<and>
         fst (loop_body w) =
           (case ev of Signal \<Rightarrow> Killed | Byte b \<Rightarrow> Returns (b = CHR ''q'') | _ \<Rightarrow> Returns False)"
  using assms
  by (cases ev) (simp_all add: loop_body_def read_def printf_def Let_def)

lemma loop_body_events:
  assumes "loop_body w = (r, w')"
  shows "\<exists>tr. trace w' = trace w @ tr \<and> (\<forall>e \<in> set tr. is_io e) \<and>
           (case r of
              Returns brk \<Rightarrow> brk \<longrightarrow> Ev_read (Byte (CHR ''q'')) \<in> set tr
            | Exits st \<Rightarrow> False
            | Killed \<Rightarrow> Ev_read Signal \<in> set tr)"
  using assms
  by (auto simp: loop_body_def read_def printf_def Let_def
           split: list.splits stdin_event.splits if_splits)

lemma loop_body_consumes:
  assumes "loop_body w = (r, w')"
  shows "(stdin_events w = [] \<and> stdin_events w' = [] \<and> r = Returns False) \<or>
         (\<exists>ev. stdin_events w = ev # stdin_events w' \<and>
            r = (case ev of Signal \<Rightarrow> Killed | Byte b \<Rightarrow> Returns (b = CHR ''q'')
                 | _ \<Rightarrow> Returns False))"
proof (cases "stdin_events w")
  case Nil
  with assms show ?thesis by (auto simp: loop_body_nil)
next
  case (Cons ev rest)
  from loop_body_step [OF Cons] assms show ?thesis
    using Cons by simp
qed

lemma main_loop_events:
  assumes "main_loop w = Some (r, w')"
  shows "\<exists>tr. trace w' = trace w @ tr \<and> (\<forall>e \<in> set tr. is_io e) \<and>
           (r = Returns 0 \<and> Ev_read (Byte (CHR ''q'')) \<in> set tr \<or>
            r = Killed \<and> Ev_read Signal \<in> set tr)"
proof -
  let ?P = "\<lambda>w y. \<exists>tr. trace (snd y) = trace w @ tr \<and> (\<forall>e \<in> set tr. is_io e) \<and>
           (fst y = Returns 0 \<and> Ev_read (Byte (CHR ''q'')) \<in> set tr \<or>
            fst y = Killed \<and> Ev_read Signal \<in> set tr)"
  have "?P w (r, w')"
  proof (rule main_loop.raw_induct [where P = ?P, OF _ assms])
    fix f :: "world \<Rightarrow> (int result \<times> world) option" and w :: world
      and y :: "int result \<times> world"
    assume IH: "\<And>x y. f x = Some y \<Longrightarrow> ?P x y"
      and step: "(case loop_body w of
              (Returns brk, w') \<Rightarrow> if brk then Some (Returns 0, w') else f w'
            | (Exits st, w') \<Rightarrow> Some (Exits st, w')
            | (Killed, w') \<Rightarrow> Some (Killed, w')) = Some y"
    obtain b w1 where lb: "loop_body w = (b, w1)"
      by (cases "loop_body w")
    from loop_body_events [OF lb] obtain tr where
      tr: "trace w1 = trace w @ tr" "\<forall>e \<in> set tr. is_io e"
      and res: "case b of Returns brk \<Rightarrow> brk \<longrightarrow> Ev_read (Byte (CHR ''q'')) \<in> set tr
                | Exits st \<Rightarrow> False | Killed \<Rightarrow> Ev_read Signal \<in> set tr"
      by blast
    show "?P w y"
    proof (cases b)
      case (Returns brk)
      show ?thesis
      proof (cases brk)
        case True
        with Returns step lb have "y = (Returns 0, w1)" by simp
        with tr res Returns True show ?thesis by auto
      next
        case False
        with Returns step lb have "f w1 = Some y" by simp
        from IH [OF this] obtain tr' where
          "trace (snd y) = trace w1 @ tr'" "\<forall>e \<in> set tr'. is_io e"
          "fst y = Returns 0 \<and> Ev_read (Byte (CHR ''q'')) \<in> set tr' \<or>
           fst y = Killed \<and> Ev_read Signal \<in> set tr'"
          by blast
        with tr have "trace (snd y) = trace w @ (tr @ tr')" "\<forall>e \<in> set (tr @ tr'). is_io e"
          "fst y = Returns 0 \<and> Ev_read (Byte (CHR ''q'')) \<in> set (tr @ tr') \<or>
           fst y = Killed \<and> Ev_read Signal \<in> set (tr @ tr')"
          by auto
        then show ?thesis by blast
      qed
    next
      case (Exits st)
      with res show ?thesis by simp
    next
      case Killed
      with step lb have "y = (Killed, w1)" by simp
      with tr res Killed show ?thesis by auto
    qed
  qed
  then show ?thesis by simp
qed

lemma main_loop_consumes:
  assumes "main_loop w = Some (r, w')"
  shows "\<exists>pre ev. stdin_events w = pre @ ev # stdin_events w' \<and>
           Byte (CHR ''q'') \<notin> set pre \<and> Signal \<notin> set pre \<and>
           (r = Returns 0 \<and> ev = Byte (CHR ''q'') \<or> r = Killed \<and> ev = Signal)"
proof -
  let ?P = "\<lambda>w y. \<exists>pre ev. stdin_events w = pre @ ev # stdin_events (snd y) \<and>
           Byte (CHR ''q'') \<notin> set pre \<and> Signal \<notin> set pre \<and>
           (fst y = Returns 0 \<and> ev = Byte (CHR ''q'') \<or> fst y = Killed \<and> ev = Signal)"
  have "?P w (r, w')"
  proof (rule main_loop.raw_induct [where P = ?P, OF _ assms])
    fix f :: "world \<Rightarrow> (int result \<times> world) option" and w :: world
      and y :: "int result \<times> world"
    assume IH: "\<And>x y. f x = Some y \<Longrightarrow> ?P x y"
      and step: "(case loop_body w of
              (Returns brk, w') \<Rightarrow> if brk then Some (Returns 0, w') else f w'
            | (Exits st, w') \<Rightarrow> Some (Exits st, w')
            | (Killed, w') \<Rightarrow> Some (Killed, w')) = Some y"
    obtain b w1 where lb: "loop_body w = (b, w1)"
      by (cases "loop_body w")
    from loop_body_consumes [OF lb] show "?P w y"
    proof (elim disjE conjE exE)
      assume e: "stdin_events w = []" "stdin_events w1 = []" and b: "b = Returns False"
      with step lb have "f w1 = Some y" by simp
      from IH [OF this] e show ?thesis by simp
    next
      fix ev
      assume e: "stdin_events w = ev # stdin_events w1"
        and b: "b = (case ev of Signal \<Rightarrow> Killed | Byte b \<Rightarrow> Returns (b = CHR ''q'')
                 | _ \<Rightarrow> Returns False)"
      show ?thesis
      proof (cases "ev = Signal \<or> ev = Byte (CHR ''q'')")
        case True
        with b step lb have "snd y = w1 \<and> (ev = Signal \<and> fst y = Killed \<or>
            ev = Byte (CHR ''q'') \<and> fst y = Returns 0)"
          by auto
        with e have "stdin_events w = [] @ ev # stdin_events (snd y) \<and>
           Byte (CHR ''q'') \<notin> set [] \<and> Signal \<notin> set [] \<and>
           (fst y = Returns 0 \<and> ev = Byte (CHR ''q'') \<or> fst y = Killed \<and> ev = Signal)"
          by auto
        then show ?thesis by blast
      next
        case False
        with b have "b = Returns False"
          by (cases ev) auto
        with step lb have "f w1 = Some y" by simp
        from IH [OF this] obtain pre ev' where
          p: "stdin_events w1 = pre @ ev' # stdin_events (snd y)"
            "Byte (CHR ''q'') \<notin> set pre" "Signal \<notin> set pre"
            "fst y = Returns 0 \<and> ev' = Byte (CHR ''q'') \<or> fst y = Killed \<and> ev' = Signal"
          by blast
        with e False have "stdin_events w = (ev # pre) @ ev' # stdin_events (snd y) \<and>
           Byte (CHR ''q'') \<notin> set (ev # pre) \<and> Signal \<notin> set (ev # pre) \<and>
           (fst y = Returns 0 \<and> ev' = Byte (CHR ''q'') \<or> fst y = Killed \<and> ev' = Signal)"
          by auto
        then show ?thesis by blast
      qed
    qed
  qed
  then show ?thesis by simp
qed

lemma main_loop_quits:
  assumes "stdin_events w = pre @ Byte (CHR ''q'') # post"
    and "Byte (CHR ''q'') \<notin> set pre" and "Signal \<notin> set pre"
  shows "\<exists>w'. main_loop w = Some (Returns 0, w') \<and> stdin_events w' = post"
  using assms
proof (induction pre arbitrary: w)
  case Nil
  then have ev: "stdin_events w = Byte (CHR ''q'') # post" by simp
  obtain b w1 where lb: "loop_body w = (b, w1)"
    by (cases "loop_body w")
  with loop_body_step [OF ev] have "b = Returns True" "stdin_events w1 = post"
    by simp_all
  with lb show ?case
    by (subst main_loop.simps) simp
next
  case (Cons ev pre)
  then have ev: "stdin_events w = ev # (pre @ Byte (CHR ''q'') # post)"
    and ne: "ev \<noteq> Byte (CHR ''q'')" "ev \<noteq> Signal"
    by auto
  obtain b w1 where lb: "loop_body w = (b, w1)"
    by (cases "loop_body w")
  with loop_body_step [OF ev] ne have b: "b = Returns False"
    and w1: "stdin_events w1 = pre @ Byte (CHR ''q'') # post"
    by (cases ev; simp)+
  from Cons.IH [OF w1] Cons.prems obtain w' where
    "main_loop w1 = Some (Returns 0, w')" "stdin_events w' = post"
    by auto
  with lb b show ?case
    by (subst main_loop.simps) simp
qed

lemma main_loop_keeps:
  assumes "main_loop w = Some (r, w')"
  shows "orig_termios w' = orig_termios w" "atexit_fns w' = atexit_fns w" "tty w' = tty w"
    "tc_outcomes w' = tc_outcomes w"
  using main_loop_frame [OF assms] by simp_all

lemma disableRawMode_cases:
  obtains (ok) rest where "next_outcome (tc_outcomes w) = (None, rest)"
    "disableRawMode w =
     (Returns (),
      w\<lparr>tty := orig_termios w, tc_outcomes := rest,
        trace := trace w @ [Ev_tcsetattr STDIN_FILENO TCSAFLUSH (orig_termios w) None]\<rparr>)"
  | (fail) e rest where "next_outcome (tc_outcomes w) = (Some e, rest)"
    "disableRawMode w =
     (Exits 1,
      w\<lparr>tc_outcomes := rest, errno := e,
        trace := trace w @ [Ev_tcsetattr STDIN_FILENO TCSAFLUSH (orig_termios w) (Some e),
                            Ev_perror ''tcsetattr'' e]\<rparr>)"
proof -
  obtain oc rest where oc: "next_outcome (tc_outcomes w) = (oc, rest)"
    by (cases "next_outcome (tc_outcomes w)")
  show thesis
  proof (cases oc)
    case None
    with oc ok disableRawMode_ok show thesis by blast
  next
    case (Some e)
    with oc fail disableRawMode_fail show thesis by blast
  qed
qed

lemma enableRawMode_cases:
  obtains (capture_fail) e r0 where "next_outcome (tc_outcomes w) = (Some e, r0)"
    "enableRawMode w =
     (Exits 1,
      w\<lparr>tc_outcomes := r0, errno := e,
        trace := trace w @ [Ev_tcgetattr STDIN_FILENO (Some e), Ev_perror ''tcgetattr'' e]\<rparr>)"
  | (apply_fail) e r0 r1 where "next_outcome (tc_outcomes w) = (None, r0)"
    "next_outcome r0 = (Some e, r1)"
    "enableRawMode w =
     (Exits 1,
      w\<lparr>orig_termios := tty w, atexit_fns := DisableRawMode # atexit_fns w,
        tc_outcomes := r1, errno := e,
        trace := trace w @ [Ev_tcgetattr STDIN_FILENO None, Ev_atexit DisableRawMode,
                            Ev_tcsetattr STDIN_FILENO TCSAFLUSH (raw_termios (tty w)) (Some e),
                            Ev_perror ''tcsetattr'' e]\<rparr>)"
  | (ok) r0 r1 where "next_outcome (tc_outcomes w) = (None, r0)"
    "next_outcome r0 = (None, r1)"
    "enableRawMode w =
     (Returns (),
      w\<lparr>orig_termios := tty w, atexit_fns := DisableRawMode # atexit_fns w,
        tty := raw_termios (tty w), tc_outcomes := r1,
        trace := trace w @ [Ev_tcgetattr STDIN_FILENO None, Ev_atexit DisableRawMode,
                            Ev_tcsetattr STDIN_FILENO TCSAFLUSH (raw_termios (tty w)) None]\<rparr>)"
proof -
  obtain o0 r0 where o0: "next_outcome (tc_outcomes w) = (o0, r0)"
    by (cases "next_outcome (tc_outcomes w)")
  obtain o1 r1 where o1: "next_outcome r0 = (o1, r1)"
    by (cases "next_outcome r0")
  show thesis
  proof (cases o0)
    case (Some e)
    with o0 capture_fail enableRawMode_capture_fail show thesis by blast
  next
    case None
    note n0 = this
    show thesis
    proof (cases o1)
      case None
      with n0 o0 o1 ok enableRawMode_ok show thesis by blast
    next
      case (Some e)
      with n0 o0 o1 apply_fail enableRawMode_apply_fail show thesis by blast
    qed
  qed
qed

lemma exit_restore:
  assumes "atexit_fns w = [DisableRawMode]"
  obtains r rest where "next_outcome (tc_outcomes w) = (r, rest)"
    "fst (exit st w) = Exited (case r of None \<Rightarrow> st | Some e \<Rightarrow> 1)"
    "trace (snd (exit st w)) =
       trace w @ Ev_tcsetattr STDIN_FILENO TCSAFLUSH (orig_termios w) r # diagnostic ''tcsetattr'' r"
    "tty (snd (exit st w)) = (case r of None \<Rightarrow> orig_termios w | Some e \<Rightarrow> tty w)"
    "orig_termios (snd (exit st w)) = orig_termios w"
    "atexit_fns (snd (exit st w)) = []"
proof -
  obtain r rest where r: "next_outcome (tc_outcomes w) = (r, rest)"
    by (cases "next_outcome (tc_outcomes w)")
  show thesis
  proof (cases r)
    case None
    with r exit_restore_ok [OF assms, of rest st] show thesis
      by (intro that [of r rest]) simp_all
  next
    case (Some e)
    with r exit_restore_fail [OF assms, of e rest st] show thesis
      by (intro that [of r rest]) simp_all
  qed
qed

lemma io_no_attr_calls:
  assumes "\<forall>e \<in> set io. is_io e"
  shows "filter is_tcgetattr io = []" "filter is_tcsetattr io = []" "filter is_perror io = []"
proof -
  have "\<And>e. is_io e \<Longrightarrow> \<not> is_tcgetattr e \<and> \<not> is_tcsetattr e \<and> \<not> is_perror e"
    by (case_tac e) simp_all
  with assms show "filter is_tcgetattr io = []" "filter is_tcsetattr io = []"
    "filter is_perror io = []"
    by (auto simp: filter_empty_conv)
qed

lemma run_program_cases:
  assumes "atexit_fns w = []" and "run_program w = Some (en, w')"
  obtains
    (capture_fail) e where
      "fst (enableRawMode w) = Exits 1"
      "en = Exited 1"
      "trace w' = trace w @ [Ev_tcgetattr STDIN_FILENO (Some e), Ev_perror ''tcgetattr'' e]"
      "tty w' = tty w" "orig_termios w' = orig_termios w"
  | (apply_fail) e r where
      "fst (enableRawMode w) = Exits 1"
      "en = Exited 1"
      "trace w' = trace w @
         [Ev_tcgetattr STDIN_FILENO None, Ev_atexit DisableRawMode,
          Ev_tcsetattr STDIN_FILENO TCSAFLUSH (raw_termios (tty w)) (Some e),
          Ev_perror ''tcsetattr'' e,
          Ev_tcsetattr STDIN_FILENO TCSAFLUSH (tty w) r] @ diagnostic ''tcsetattr'' r"
      "tty w' = tty w" "orig_termios w' = tty w"
  | (killed) io where
      "fst (enableRawMode w) = Returns ()"
      "en = Signaled"
      "trace w' = trace w @
         [Ev_tcgetattr STDIN_FILENO None, Ev_atexit DisableRawMode,
          Ev_tcsetattr STDIN_FILENO TCSAFLUSH (raw_termios (tty w)) None] @ io"
      "\<forall>e \<in> set io. is_io e" "Ev_read Signal \<in> set io"
      "tty w' = raw_termios (tty w)" "orig_termios w' = tty w"
  | (quit) io r where
      "fst (enableRawMode w) = Returns ()"
      "en = Exited (case r of None \<Rightarrow> 0 | Some e \<Rightarrow> 1)"
      "trace w' = trace w @
         [Ev_tcgetattr STDIN_FILENO None, Ev_atexit DisableRawMode,
          Ev_tcsetattr STDIN_FILENO TCSAFLUSH (raw_termios (tty w)) None] @ io @
         Ev_tcsetattr STDIN_FILENO TCSAFLUSH (tty w) r # diagnostic ''tcsetattr'' r"
      "\<forall>e \<in> set io. is_io e" "Ev_read (Byte (CHR ''q'')) \<in> set io"
      "tty w' = (case r of None \<Rightarrow> tty w | Some e \<Rightarrow> raw_termios (tty w))"
      "orig_termios w' = tty w"
proof (cases w rule: enableRawMode_cases)
  case (capture_fail e r0)
  let ?w1 = "snd (enableRawMode w)"
  from capture_fail assms(1) have "atexit_fns ?w1 = []" by simp
  from exit_no_handlers [OF this, of 1] capture_fail assms(2)
  have "en = Exited 1" "w' = ?w1"
    by (simp_all add: run_program_def main_def)
  with capture_fail show thesis
    by (intro that(1) [of e]) simp_all
next
  case (apply_fail e r0 r1)
  let ?w1 = "snd (enableRawMode w)"
  from apply_fail assms(1) have h: "atexit_fns ?w1 = [DisableRawMode]" by simp
  from apply_fail assms(2) have x: "exit 1 ?w1 = (en, w')"
    by (simp add: run_program_def main_def)
  from h obtain r rest where
    "fst (exit 1 ?w1) = Exited (case r of None \<Rightarrow> 1 | Some e \<Rightarrow> 1)"
    "trace (snd (exit 1 ?w1)) =
       trace ?w1 @ Ev_tcsetattr STDIN_FILENO TCSAFLUSH (orig_termios ?w1) r # diagnostic ''tcsetattr'' r"
    "tty (snd (exit 1 ?w1)) = (case r of None \<Rightarrow> orig_termios ?w1 | Some e \<Rightarrow> tty ?w1)"
    "orig_termios (snd (exit 1 ?w1)) = orig_termios ?w1"
    by (rule exit_restore [of ?w1 1]) blast
  with x apply_fail show thesis
    by (intro that(2) [of e r]) (simp_all split: option.splits)
next
  case (ok r0 r1)
  let ?w1 = "snd (enableRawMode w)"
  from ok assms(2) obtain res w2 where ml: "main_loop ?w1 = Some (res, w2)"
    by (cases "main_loop ?w1") (auto simp: run_program_def main_def)
  note keep = main_loop_keeps [OF ml]
  from main_loop_events [OF ml] obtain io where
    io: "trace w2 = trace ?w1 @ io" "\<forall>e \<in> set io. is_io e"
    and res: "res = Returns 0 \<and> Ev_read (Byte (CHR ''q'')) \<in> set io \<or>
            res = Killed \<and> Ev_read Signal \<in> set io"
    by blast
  from res show thesis
  proof (elim disjE conjE)
    assume k: "res = Killed" "Ev_read Signal \<in> set io"
    with ok ml assms(2) have "en = Signaled" "w' = w2"
      by (simp_all add: run_program_def main_def)
    with ok io k keep show thesis
      by (intro that(3) [of io]) simp_all
  next
    assume q: "res = Returns 0" "Ev_read (Byte (CHR ''q'')) \<in> set io"
    with ok ml assms(2) have x: "exit 0 w2 = (en, w')"
      by (simp add: run_program_def main_def)
    from keep ok assms(1) have h: "atexit_fns w2 = [DisableRawMode]" by simp
    from h obtain r rest where
      "fst (exit 0 w2) = Exited (case r of None \<Rightarrow> 0 | Some e \<Rightarrow> 1)"
      "trace (snd (exit 0 w2)) =
         trace w2 @ Ev_tcsetattr STDIN_FILENO TCSAFLUSH (orig_termios w2) r # diagnostic ''tcsetattr'' r"
      "tty (snd (exit 0 w2)) = (case r of None \<Rightarrow> orig_termios w2 | Some e \<Rightarrow> tty w2)"
      "orig_termios (snd (exit 0 w2)) = orig_termios w2"
      by (rule exit_restore [of w2 0]) blast
    with x ok io q keep show thesis
      by (intro that(4) [of r io]) (simp_all split: option.splits)
  qed
qed

lemma run_program_quits:
  assumes "atexit_fns w = []" and "fst (enableRawMode w) = Returns ()"
    and "stdin_events w = pre @ Byte (CHR ''q'') # post"
    and "Byte (CHR ''q'') \<notin> set pre" and "Signal \<notin> set pre"
  shows "\<exists>w2. main_loop (snd (enableRawMode w)) = Some (Returns 0, w2) \<and>
           run_program w = Some (exit 0 w2) \<and> atexit_fns w2 = [DisableRawMode] \<and>
           orig_termios w2 = tty w \<and> tc_outcomes w2 = tc_outcomes (snd (enableRawMode w))"
proof (cases w rule: enableRawMode_cases)
  case (capture_fail e r0)
  with assms(2) show ?thesis by simp
next
  case (apply_fail e r0 r1)
  with assms(2) show ?thesis by simp
next
  case (ok r0 r1)
  let ?w1 = "snd (enableRawMode w)"
  from ok assms(3) have "stdin_events ?w1 = pre @ Byte (CHR ''q'') # post" by simp
  from main_loop_quits [OF this assms(4,5)] obtain w2 where
    ml: "main_loop ?w1 = Some (Returns 0, w2)"
    by blast
  note keep = main_loop_keeps [OF ml]
  from ok ml have "run_program w = Some (exit 0 w2)"
    by (simp add: run_program_def main_def)
  with ml keep ok assms(1) show ?thesis by simp
qed

lemma failed_iff_diagnostic:
  "filter failed_call (Ev_tcsetattr fd a t r # diagnostic s r) = [] \<longleftrightarrow> r = None"
  "filter is_perror (Ev_tcsetattr fd a t r # diagnostic s r) = [] \<longleftrightarrow> r = None"
  by (cases r; simp)+

lemma io_no_failed_call:
  assumes "\<forall>e \<in> set io. is_io e"
  shows "filter failed_call io = []"
proof -
  have "\<And>e. is_io e \<Longrightarrow> \<not> failed_call e"
    by (case_tac e) simp_all
  with assms show ?thesis
    by (auto simp: filter_empty_conv)
qed

section \<open>Concrete runs\<close>

lemma int_of_char_q: "int_of_char (CHR ''q'') = 113"
  by (simp add: int_of_char_def)

lemma fmt_d_113: "fmt_d 113 = ''113''"
  by code_simp

lemma main_loop_q:
  "stdin_events w = Byte (CHR ''q'') # rest \<Longrightarrow>
   main_loop w =
     Some (Returns 0,
           w\<lparr>stdin_events := rest,
             trace := trace w @ [Ev_read (Byte (CHR ''q'')),
               Ev_printf (''113 ('' @ [CHR 0x27, CHR ''q'', CHR 0x27] @ '')'' @ crlf)]\<rparr>)"
  by (subst main_loop.simps)
     (simp add: loop_body_def read_def printf_def iscntrl_def Let_def int_of_char_q fmt_d_113)

lemma main_loop_signal:
  "stdin_events w = Signal # rest \<Longrightarrow>
   main_loop w = Some (Killed, w\<lparr>stdin_events := rest, trace := trace w @ [Ev_read Signal]\<rparr>)"
  by (subst main_loop.simps) (simp add: loop_body_def read_def Let_def)

lemma run_quit:
  "run_program (init_world A [] [Byte (CHR ''q'')]) =
     Some (Exited 0,
       \<lparr>orig_termios = A, atexit_fns = [], tty = A, tc_outcomes = [], stdin_events = [],
        errno = 0,
        trace = [Ev_tcgetattr STDIN_FILENO None, Ev_atexit DisableRawMode,
                 Ev_tcsetattr STDIN_FILENO TCSAFLUSH (raw_termios A) None,
                 Ev_read (Byte (CHR ''q'')),
                 Ev_printf (''113 ('' @ [CHR 0x27, CHR ''q'', CHR 0x27] @ '')'' @ crlf),
                 Ev_tcsetattr STDIN_FILENO TCSAFLUSH A None]\<rparr>)"
proof -
  let ?w = "init_world A [] [Byte (CHR ''q'')]"
  have e: "enableRawMode ?w =
     (Returns (),
      \<lparr>orig_termios = A, atexit_fns = [DisableRawMode], tty = raw_termios A, tc_outcomes = [],
       stdin_events = [Byte (CHR ''q'')], errno = 0,
       trace = [Ev_tcgetattr STDIN_FILENO None, Ev_atexit DisableRawMode,
                Ev_tcsetattr STDIN_FILENO TCSAFLUSH (raw_termios A) None]\<rparr>)"
    by (simp add: prog_defs)
  show ?thesis
    by (simp add: run_program_def main_def e main_loop_q exit_restore_ok [where rest = "[]"])
qed

lemma run_quit_restore_fails:
  "run_program (init_world A [None, None, Some e] [Byte (CHR ''q'')]) =
     Some (Exited 1,
       \<lparr>orig_termios = A, atexit_fns = [], tty = raw_termios A, tc_outcomes = [],
        stdin_events = [], errno = e,
        trace = [Ev_tcgetattr STDIN_FILENO None, Ev_atexit DisableRawMode,
                 Ev_tcsetattr STDIN_FILENO TCSAFLUSH (raw_termios A) None,
                 Ev_read (Byte (CHR ''q'')),
                 Ev_printf (''113 ('' @ [CHR 0x27, CHR ''q'', CHR 0x27] @ '')'' @ crlf),
                 Ev_tcsetattr STDIN_FILENO TCSAFLUSH A (Some e),
                 Ev_perror ''tcsetattr'' e]\<rparr>)"
proof -
  let ?w = "init_world A [None, None, Some e] [Byte (CHR ''q'')]"
  have e: "enableRawMode ?w =
     (Returns (),
      \<lparr>orig_termios = A, atexit_fns = [DisableRawMode], tty = raw_termios A,
       tc_outcomes = [Some e],
       stdin_events = [Byte (CHR ''q'')], errno = 0,
       trace = [Ev_tcgetattr STDIN_FILENO None, Ev_atexit DisableRawMode,
                Ev_tcsetattr STDIN_FILENO TCSAFLUSH (raw_termios A) None]\<rparr>)"
    by (simp add: prog_defs)
  show ?thesis
    by (simp add: run_program_def main_def e main_loop_q
          exit_restore_fail [where rest = "[]" and e = e])
qed

lemma run_capture_fails:
  "run_program (init_world A [Some e] evs) =
     Some (Exited 1,
       \<lparr>orig_termios = zero_termios, atexit_fns = [], tty = A, tc_outcomes = [],
        stdin_events = evs, errno = e,
        trace = [Ev_tcgetattr STDIN_FILENO (Some e), Ev_perror ''tcgetattr'' e]\<rparr>)"
proof -
  have e: "enableRawMode (init_world A [Some e] evs) =
     (Exits 1,
       \<lparr>orig_termios = zero_termios, atexit_fns = [], tty = A, tc_outcomes = [],
        stdin_events = evs, errno = e,
        trace = [Ev_tcgetattr STDIN_FILENO (Some e), Ev_perror ''tcgetattr'' e]\<rparr>)"
    by (simp add: prog_defs)
  show ?thesis
    by (simp add: run_program_def main_def e exit_no_handlers)
qed

lemma run_apply_fails:
  "run_program (init_world A [None, Some e] evs) =
     Some (Exited 1,
       \<lparr>orig_termios = A, atexit_fns = [], tty = A, tc_outcomes = [],
        stdin_events = evs, errno = e,
        trace = [Ev_tcgetattr STDIN_FILENO None, Ev_atexit DisableRawMode,
                 Ev_tcsetattr STDIN_FILENO TCSAFLUSH (raw_termios A) (Some e),
                 Ev_perror ''tcsetattr'' e,
                 Ev_tcsetattr STDIN_FILENO TCSAFLUSH A None]\<rparr>)"
proof -
  have e: "enableRawMode (init_world A [None, Some e] evs) =
     (Exits 1,
       \<lparr>orig_termios = A, atexit_fns = [DisableRawMode], tty = A, tc_outcomes = [],
        stdin_events = evs, errno = e,
        trace = [Ev_tcgetattr STDIN_FILENO None, Ev_atexit DisableRawMode,
                 Ev_tcsetattr STDIN_FILENO TCSAFLUSH (raw_termios A) (Some e),
                 Ev_perror ''tcsetattr'' e]\<rparr>)"
    by (simp add: prog_defs)
  show ?thesis
    by (simp add: run_program_def main_def e exit_restore_ok [where rest = "[]"])
qed

lemma run_signal:
  "run_program (init_world A [] [Signal]) =
     Some (Signaled,
       \<lparr>orig_termios = A, atexit_fns = [DisableRawMode], tty = raw_termios A, tc_outcomes = [],
        stdin_events = [], errno = 0,
        trace = [Ev_tcgetattr STDIN_FILENO None, Ev_atexit DisableRawMode,
                 Ev_tcsetattr STDIN_FILENO TCSAFLUSH (raw_termios A) None,
                 Ev_read Signal]\<rparr>)"
proof -
  have e: "enableRawMode (init_world A [] [Signal]) =
     (Returns (),
      \<lparr>orig_termios = A, atexit_fns = [DisableRawMode], tty = raw_termios A, tc_outcomes = [],
       stdin_events = [Signal], errno = 0,
       trace = [Ev_tcgetattr STDIN_FILENO None, Ev_atexit DisableRawMode,
                Ev_tcsetattr STDIN_FILENO TCSAFLUSH (raw_termios A) None]\<rparr>)"
    by (simp add: prog_defs)
  show ?thesis
    by (simp add: run_program_def main_def e main_loop_signal)
qed

lemma raw_changes_cooked: "raw_termios cooked_termios \<noteq> cooked_termios"
proof
  assume "raw_termios cooked_termios = cooked_termios"
  then have "c_lflag (raw_termios cooked_termios) = c_lflag cooked_termios"
    by simp
  then show False
    by (simp add: raw_termios_def Let_def termios_consts cooked_termios_def)
qed

section \<open>Bit masks\<close>

lemma and_not_clear:
  fixes x m k :: "'a::len word"
  assumes "k AND NOT m = 0"
  shows "(x AND NOT m) AND k = 0"
proof -
  have "(x AND NOT m) AND k = x AND (k AND NOT m)"
    by (simp add: ac_simps)
  with assms show ?thesis by simp
qed

lemma bit_and_not_outside:
  fixes x m :: "'a::len word"
  shows "\<not> bit m n \<Longrightarrow> bit (x AND NOT m) n = bit x n"
  by (auto simp: bit_simps dest: bit_imp_le_length)

lemma bit_or_outside:
  fixes x m :: "'a::len word"
  shows "\<not> bit m n \<Longrightarrow> bit (x OR m) n = bit x n"
  by (simp add: bit_simps)


section \<open>The claims\<close>

subsection \<open>C1\<close>

text \<open>
  C1 (as amended). If \<^verbatim>\<open>enableRawMode\<close> succeeds and the process later ends through
  \<^verbatim>\<open>exit\<close> (the return from \<^verbatim>\<open>main\<close>, or \<^verbatim>\<open>die\<close>), then \<^verbatim>\<open>disableRawMode\<close> has
  run before the process ends: after the calls of the loop, the last attribute call of the
  trace is \<^verbatim>\<open>tcsetattr\<close> with the captured original, followed only by the diagnostic when
  it failed. When it succeeded the terminal has the original attributes and the status
  is 0; when it failed the status is 1. Termination by a signal is not covered.
\<close>

theorem restore_runs_before_exit:
  assumes "atexit_fns w = []" and "enableRawMode w = (Returns (), w1)"
    and "run_program w = Some (Exited st, w')"
  shows "orig_termios w1 = tty w \<and>
         (\<exists>io r. trace w' = trace w1 @ io @
              Ev_tcsetattr STDIN_FILENO TCSAFLUSH (tty w) r # diagnostic ''tcsetattr'' r \<and>
            (\<forall>e \<in> set io. is_io e) \<and>
            (r = None \<longrightarrow> tty w' = tty w \<and> st = 0) \<and>
            (r \<noteq> None \<longrightarrow> st = 1))"
  using assms(1,3)
proof (cases rule: run_program_cases)
  case (capture_fail e)
  with assms(2) show ?thesis by simp
next
  case (apply_fail e r)
  with assms(2) show ?thesis by simp
next
  case (killed io)
  then show ?thesis by simp
next
  case (quit io r)
  have w1: "orig_termios w1 = tty w \<and> trace w1 = trace w @
         [Ev_tcgetattr STDIN_FILENO None, Ev_atexit DisableRawMode,
          Ev_tcsetattr STDIN_FILENO TCSAFLUSH (raw_termios (tty w)) None]"
    using assms(2) by (cases w rule: enableRawMode_cases) auto
  with quit have "trace w' = trace w1 @ io @
              Ev_tcsetattr STDIN_FILENO TCSAFLUSH (tty w) r # diagnostic ''tcsetattr'' r \<and>
            (\<forall>e \<in> set io. is_io e) \<and>
            (r = None \<longrightarrow> tty w' = tty w \<and> st = 0) \<and>
            (r \<noteq> None \<longrightarrow> st = 1)"
    by (auto split: option.splits)
  with w1 show ?thesis by blast
qed

theorem restore_runs_before_exit_witness:
  "atexit_fns (init_world cooked_termios [] [Byte (CHR ''q'')]) = [] \<and>
   fst (enableRawMode (init_world cooked_termios [] [Byte (CHR ''q'')])) = Returns () \<and>
   run_program (init_world cooked_termios [] [Byte (CHR ''q'')]) =
     Some (Exited 0,
       \<lparr>orig_termios = cooked_termios, atexit_fns = [], tty = cooked_termios, tc_outcomes = [],
        stdin_events = [], errno = 0,
        trace = [Ev_tcgetattr STDIN_FILENO None, Ev_atexit DisableRawMode,
                 Ev_tcsetattr STDIN_FILENO TCSAFLUSH (raw_termios cooked_termios) None,
                 Ev_read (Byte (CHR ''q'')),
                 Ev_printf (''113 ('' @ [CHR 0x27, CHR ''q'', CHR 0x27] @ '')'' @ crlf),
                 Ev_tcsetattr STDIN_FILENO TCSAFLUSH cooked_termios None]\<rparr>) \<and>
   orig_termios (snd (enableRawMode (init_world cooked_termios [] [Byte (CHR ''q'')]))) =
     cooked_termios"
proof -
  let ?w = "init_world cooked_termios [] [Byte (CHR ''q'')]"
  have a: "atexit_fns ?w = []" and t: "tty ?w = cooked_termios"
    by (simp_all add: init_world_def)
  have f: "fst (enableRawMode ?w) = Returns ()"
    by (simp add: prog_defs)
  then have e: "enableRawMode ?w = (Returns (), snd (enableRawMode ?w))"
    by (metis prod.collapse)
  note r = run_quit [of cooked_termios]
  from restore_runs_before_exit [OF a e r] t
  have "orig_termios (snd (enableRawMode ?w)) = cooked_termios"
    by simp
  with a f r show ?thesis by simp
qed

text \<open>
  C1 as stated fails for termination by a signal: the program installs no signal handler,
  so a signal that arrives while the process waits in \<^verbatim>\<open>read\<close> ends it without
  \<^verbatim>\<open>exit\<close>. The handler is still registered, no restoring \<^verbatim>\<open>tcsetattr\<close> is in the
  trace, and the terminal keeps the raw attributes.
\<close>

theorem signal_skips_restore_counterexample:
  "fst (enableRawMode (init_world cooked_termios [] [Signal])) = Returns () \<and>
   run_program (init_world cooked_termios [] [Signal]) =
     Some (Signaled,
       \<lparr>orig_termios = cooked_termios, atexit_fns = [DisableRawMode],
        tty = raw_termios cooked_termios, tc_outcomes = [], stdin_events = [], errno = 0,
        trace = [Ev_tcgetattr STDIN_FILENO None, Ev_atexit DisableRawMode,
                 Ev_tcsetattr STDIN_FILENO TCSAFLUSH (raw_termios cooked_termios) None,
                 Ev_read Signal]\<rparr>) \<and>
   raw_termios cooked_termios \<noteq> cooked_termios"
  by (simp add: run_signal raw_changes_cooked) (simp add: prog_defs)

subsection \<open>C2\<close>

text \<open>
  C2 (as amended). For every snapshot \<open>A\<close> (its \<open>c_cc\<close> array of \<open>NCCS\<close> entries), the raw
  configuration derived from \<open>A\<close> has echo, canonical buffering, signal generation,
  software flow control, extended input processing, CR-to-NL translation, output
  post-processing, parity checking, high-bit stripping and also the break-to-interrupt
  flag \<open>BRKINT\<close> disabled, the character size set to 8 bits, \<open>VMIN\<close> 0 and \<open>VTIME\<close> 1;
  every other bit of the four flag words, every other control character, the line
  discipline and the speeds are those of \<open>A\<close>.
\<close>

theorem raw_termios_fields:
  assumes "length (c_cc A) = NCCS"
  shows
    "c_lflag (raw_termios A) AND ECHO = 0 \<and>
     c_lflag (raw_termios A) AND ICANON = 0 \<and>
     c_lflag (raw_termios A) AND ISIG = 0 \<and>
     c_iflag (raw_termios A) AND IXON = 0 \<and>
     c_lflag (raw_termios A) AND IEXTEN = 0 \<and>
     c_iflag (raw_termios A) AND ICRNL = 0 \<and>
     c_oflag (raw_termios A) AND OPOST = 0 \<and>
     c_iflag (raw_termios A) AND INPCK = 0 \<and>
     c_iflag (raw_termios A) AND ISTRIP = 0 \<and>
     c_iflag (raw_termios A) AND BRKINT = 0 \<and>
     c_cflag (raw_termios A) AND CSIZE = CS8 \<and>
     c_cc (raw_termios A) ! VMIN = 0 \<and>
     c_cc (raw_termios A) ! VTIME = 1 \<and>
     (\<forall>n. \<not> bit (BRKINT OR ICRNL OR INPCK OR ISTRIP OR IXON) n \<longrightarrow>
          bit (c_iflag (raw_termios A)) n = bit (c_iflag A) n) \<and>
     (\<forall>n. \<not> bit OPOST n \<longrightarrow> bit (c_oflag (raw_termios A)) n = bit (c_oflag A) n) \<and>
     (\<forall>n. \<not> bit CS8 n \<longrightarrow> bit (c_cflag (raw_termios A)) n = bit (c_cflag A) n) \<and>
     (\<forall>n. \<not> bit (ECHO OR ICANON OR IEXTEN OR ISIG) n \<longrightarrow>
          bit (c_lflag (raw_termios A)) n = bit (c_lflag A) n) \<and>
     length (c_cc (raw_termios A)) = NCCS \<and>
     (\<forall>i. i \<noteq> VMIN \<and> i \<noteq> VTIME \<longrightarrow> c_cc (raw_termios A) ! i = c_cc A ! i) \<and>
     c_line (raw_termios A) = c_line A \<and>
     c_ispeed (raw_termios A) = c_ispeed A \<and>
     c_ospeed (raw_termios A) = c_ospeed A"
proof -
  have l: "c_lflag (raw_termios A) = c_lflag A AND NOT (ECHO OR ICANON OR IEXTEN OR ISIG)"
    and i: "c_iflag (raw_termios A) = c_iflag A AND NOT (BRKINT OR ICRNL OR INPCK OR ISTRIP OR IXON)"
    and out: "c_oflag (raw_termios A) = c_oflag A AND NOT OPOST"
    and c: "c_cflag (raw_termios A) = c_cflag A OR CS8"
    and cc: "c_cc (raw_termios A) = (c_cc A)[VMIN := 0, VTIME := 1]"
    and rest: "c_line (raw_termios A) = c_line A" "c_ispeed (raw_termios A) = c_ispeed A"
      "c_ospeed (raw_termios A) = c_ospeed A"
    by (simp_all add: raw_termios_def Let_def)
  have lflags: "c_lflag (raw_termios A) AND ECHO = 0" "c_lflag (raw_termios A) AND ICANON = 0"
    "c_lflag (raw_termios A) AND ISIG = 0" "c_lflag (raw_termios A) AND IEXTEN = 0"
    unfolding l by (rule and_not_clear, simp add: termios_consts)+
  have iflags: "c_iflag (raw_termios A) AND IXON = 0" "c_iflag (raw_termios A) AND ICRNL = 0"
    "c_iflag (raw_termios A) AND INPCK = 0" "c_iflag (raw_termios A) AND ISTRIP = 0"
    "c_iflag (raw_termios A) AND BRKINT = 0"
    unfolding i by (rule and_not_clear, simp add: termios_consts)+
  have oflags: "c_oflag (raw_termios A) AND OPOST = 0"
    unfolding out by (rule and_not_clear) simp
  have csize: "c_cflag (raw_termios A) AND CSIZE = CS8"
    unfolding c by (simp add: CSIZE_def CS8_def bit.conj_disj_distrib2)
  have vmin: "c_cc (raw_termios A) ! VMIN = 0" and vtime: "c_cc (raw_termios A) ! VTIME = 1"
    using assms unfolding cc by (simp_all add: VMIN_def VTIME_def NCCS_def)
  have len: "length (c_cc (raw_termios A)) = NCCS"
    using assms unfolding cc by simp
  have other_cc: "\<forall>i. i \<noteq> VMIN \<and> i \<noteq> VTIME \<longrightarrow> c_cc (raw_termios A) ! i = c_cc A ! i"
    unfolding cc by simp
  have bits:
    "\<forall>n. \<not> bit (BRKINT OR ICRNL OR INPCK OR ISTRIP OR IXON) n \<longrightarrow>
          bit (c_iflag (raw_termios A)) n = bit (c_iflag A) n"
    "\<forall>n. \<not> bit OPOST n \<longrightarrow> bit (c_oflag (raw_termios A)) n = bit (c_oflag A) n"
    "\<forall>n. \<not> bit CS8 n \<longrightarrow> bit (c_cflag (raw_termios A)) n = bit (c_cflag A) n"
    "\<forall>n. \<not> bit (ECHO OR ICANON OR IEXTEN OR ISIG) n \<longrightarrow>
          bit (c_lflag (raw_termios A)) n = bit (c_lflag A) n"
    unfolding l i out c by (intro allI impI bit_and_not_outside bit_or_outside; assumption)+
  from lflags iflags oflags csize vmin vtime len other_cc bits rest show ?thesis
    by (intro conjI) assumption+
qed

theorem raw_termios_fields_witness:
  "length (c_cc cooked_termios) = NCCS \<and>
   c_lflag (raw_termios cooked_termios) AND ECHO = 0 \<and>
   c_iflag (raw_termios cooked_termios) AND BRKINT = 0 \<and>
   c_cflag (raw_termios cooked_termios) AND CSIZE = CS8 \<and>
   c_cc (raw_termios cooked_termios) ! VMIN = 0 \<and>
   c_cc (raw_termios cooked_termios) ! VTIME = 1 \<and>
   c_ospeed (raw_termios cooked_termios) = 15"
proof -
  have len: "length (c_cc cooked_termios) = NCCS"
    by (simp add: cooked_termios_def NCCS_def)
  have "c_ospeed cooked_termios = 15"
    by (simp add: cooked_termios_def)
  with len raw_termios_fields [OF len] show ?thesis
    by simp
qed

text \<open>
  C2 as stated fails: \<open>BRKINT\<close> is not among the fields the claim lists as changed, it is
  set in the snapshot \<open>cooked_termios\<close>, and it is cleared in the raw configuration.
\<close>

theorem raw_termios_brkint_counterexample:
  "c_iflag cooked_termios AND BRKINT = BRKINT \<and>
   c_iflag (raw_termios cooked_termios) AND BRKINT = 0 \<and> BRKINT \<noteq> 0"
  by (simp add: raw_termios_def Let_def termios_consts cooked_termios_def)

subsection \<open>C3\<close>

text \<open>
  C3. For every snapshot, here the attributes \<open>tty w\<close> that \<^verbatim>\<open>enableRawMode\<close>
  captures: when \<^verbatim>\<open>enableRawMode\<close> succeeds (the raw configuration is applied) and
  \<^verbatim>\<open>disableRawMode\<close> then succeeds, the terminal again has the captured attributes, and
  a capture performed afterwards returns them. In every case the attributes
  \<^verbatim>\<open>disableRawMode\<close> hands to \<^verbatim>\<open>tcsetattr\<close> are the stored \<open>orig_termios\<close> itself.
\<close>

theorem restore_roundtrip:
  "(enableRawMode w = (Returns (), w1) \<and> disableRawMode w1 = (Returns (), w2) \<longrightarrow>
      tty w1 = raw_termios (tty w) \<and> orig_termios w1 = tty w \<and> tty w2 = tty w \<and>
      (fst (fst (tcgetattr STDIN_FILENO buf w2)) = 0 \<longrightarrow>
         snd (fst (tcgetattr STDIN_FILENO buf w2)) = tty w)) \<and>
   (\<exists>r tr. trace (snd (disableRawMode v)) =
      trace v @ Ev_tcsetattr STDIN_FILENO TCSAFLUSH (orig_termios v) r # tr)"
proof (intro conjI impI)
  assume a: "enableRawMode w = (Returns (), w1) \<and> disableRawMode w1 = (Returns (), w2)"
  obtain o0 r0 where o0: "next_outcome (tc_outcomes w) = (o0, r0)"
    by (cases "next_outcome (tc_outcomes w)")
  obtain o1 r1 where o1: "next_outcome r0 = (o1, r1)"
    by (cases "next_outcome r0")
  have "o0 = None"
    using a enableRawMode_capture_fail [of w _ r0] o0 by (cases o0) auto
  moreover have "o1 = None"
    using a enableRawMode_apply_fail [of w r0 _ r1] o0 o1 calculation by (cases o1) auto
  ultimately have w1: "w1 = w\<lparr>orig_termios := tty w, atexit_fns := DisableRawMode # atexit_fns w,
        tty := raw_termios (tty w), tc_outcomes := r1,
        trace := trace w @ [Ev_tcgetattr STDIN_FILENO None, Ev_atexit DisableRawMode,
                            Ev_tcsetattr STDIN_FILENO TCSAFLUSH (raw_termios (tty w)) None]\<rparr>"
    using a enableRawMode_ok [of w r0 r1] o0 o1 by simp
  then show "tty w1 = raw_termios (tty w)" and orig: "orig_termios w1 = tty w"
    by simp_all
  obtain o2 r2 where o2: "next_outcome (tc_outcomes w1) = (o2, r2)"
    by (cases "next_outcome (tc_outcomes w1)")
  have "o2 = None"
    using a disableRawMode_fail [of w1 _ r2] o2 by (cases o2) auto
  with a o2 disableRawMode_ok [of w1 r2] orig show w2: "tty w2 = tty w"
    by auto
  then show "fst (fst (tcgetattr STDIN_FILENO buf w2)) = 0 \<Longrightarrow>
         snd (fst (tcgetattr STDIN_FILENO buf w2)) = tty w"
    by (cases "next_outcome (tc_outcomes w2)")
       (auto simp: tcgetattr_def split: option.splits)
next
  obtain oc r where oc: "next_outcome (tc_outcomes v) = (oc, r)"
    by (cases "next_outcome (tc_outcomes v)")
  show "\<exists>r tr. trace (snd (disableRawMode v)) =
      trace v @ Ev_tcsetattr STDIN_FILENO TCSAFLUSH (orig_termios v) r # tr"
  proof (cases oc)
    case None
    with oc disableRawMode_ok [of v r] show ?thesis by simp
  next
    case (Some e)
    with oc disableRawMode_fail [of v e r] show ?thesis by simp
  qed
qed

theorem restore_roundtrip_witness:
  "enableRawMode (init_world cooked_termios [] []) =
     (Returns (), snd (enableRawMode (init_world cooked_termios [] []))) \<and>
   disableRawMode (snd (enableRawMode (init_world cooked_termios [] []))) =
     (Returns (), snd (disableRawMode (snd (enableRawMode (init_world cooked_termios [] []))))) \<and>
   tty (snd (enableRawMode (init_world cooked_termios [] []))) = raw_termios cooked_termios \<and>
   tty (snd (disableRawMode (snd (enableRawMode (init_world cooked_termios [] []))))) =
     cooked_termios \<and>
   fst (fst (tcgetattr STDIN_FILENO zero_termios
     (snd (disableRawMode (snd (enableRawMode (init_world cooked_termios [] []))))))) = 0 \<and>
   snd (fst (tcgetattr STDIN_FILENO zero_termios
     (snd (disableRawMode (snd (enableRawMode (init_world cooked_termios [] []))))))) =
     cooked_termios"
  using restore_roundtrip [of "init_world cooked_termios [] []"
      "snd (enableRawMode (init_world cooked_termios [] []))"
      "snd (disableRawMode (snd (enableRawMode (init_world cooked_termios [] []))))"
      zero_termios "init_world cooked_termios [] []"]
  by (simp add: prog_defs)

subsection \<open>C4\<close>

text \<open>
  C4 (as amended). Two calls of \<^verbatim>\<open>disableRawMode\<close> in succession that both succeed
  leave the terminal as one call does: with the stored original. The function has no
  check of what there is to restore: a call that succeeds always writes \<open>orig_termios\<close>
  to the terminal and is visible in the trace, and a call whose \<^verbatim>\<open>tcsetattr\<close> fails
  ends in \<^verbatim>\<open>exit(1)\<close> with the terminal as it was.
\<close>

theorem restore_twice:
  "(disableRawMode w = (Returns (), w1) \<and> disableRawMode w1 = (Returns (), w2) \<longrightarrow>
      tty w1 = orig_termios w \<and> tty w2 = tty w1 \<and> orig_termios w2 = orig_termios w) \<and>
   (fst (disableRawMode w) = Returns () \<longrightarrow>
      tty (snd (disableRawMode w)) = orig_termios w \<and> trace (snd (disableRawMode w)) \<noteq> trace w) \<and>
   (fst (disableRawMode v) \<noteq> Returns () \<longrightarrow>
      fst (disableRawMode v) = Exits 1 \<and> tty (snd (disableRawMode v)) = tty v)"
proof (intro conjI impI)
  assume a: "disableRawMode w = (Returns (), w1) \<and> disableRawMode w1 = (Returns (), w2)"
  from a have w1: "tty w1 = orig_termios w \<and> orig_termios w1 = orig_termios w"
    by (cases w rule: disableRawMode_cases) auto
  from a have w2: "tty w2 = orig_termios w1 \<and> orig_termios w2 = orig_termios w1"
    by (cases w1 rule: disableRawMode_cases) auto
  from w1 show "tty w1 = orig_termios w" by simp
  from w1 w2 show "tty w2 = tty w1" by simp
  from w1 w2 show "orig_termios w2 = orig_termios w" by simp
next
  assume "fst (disableRawMode w) = Returns ()"
  then show "tty (snd (disableRawMode w)) = orig_termios w"
    and "trace (snd (disableRawMode w)) \<noteq> trace w"
    by (cases w rule: disableRawMode_cases; simp)+
next
  assume "fst (disableRawMode v) \<noteq> Returns ()"
  then show "fst (disableRawMode v) = Exits 1" and "tty (snd (disableRawMode v)) = tty v"
    by (cases v rule: disableRawMode_cases; simp)+
qed

theorem restore_twice_witness:
  "disableRawMode (init_world cooked_termios [] []) =
     (Returns (), snd (disableRawMode (init_world cooked_termios [] []))) \<and>
   disableRawMode (snd (disableRawMode (init_world cooked_termios [] []))) =
     (Returns (), snd (disableRawMode (snd (disableRawMode (init_world cooked_termios [] []))))) \<and>
   tty (snd (disableRawMode (snd (disableRawMode (init_world cooked_termios [] []))))) =
     tty (snd (disableRawMode (init_world cooked_termios [] []))) \<and>
   fst (disableRawMode (init_world cooked_termios [] [])) = Returns () \<and>
   tty (snd (disableRawMode (init_world cooked_termios [] []))) = zero_termios \<and>
   fst (disableRawMode (init_world cooked_termios [Some 25] [])) \<noteq> Returns () \<and>
   fst (disableRawMode (init_world cooked_termios [Some 25] [])) = Exits 1 \<and>
   tty (snd (disableRawMode (init_world cooked_termios [Some 25] []))) = cooked_termios"
  using restore_twice [of "init_world cooked_termios [] []"
      "snd (disableRawMode (init_world cooked_termios [] []))"
      "snd (disableRawMode (snd (disableRawMode (init_world cooked_termios [] []))))"
      "init_world cooked_termios [Some 25] []"]
  by (simp add: prog_defs)

text \<open>
  C4 as stated fails where it says that restore is a no-op rather than an error when
  there is nothing to restore: before any capture the global is all zero, and
  \<^verbatim>\<open>disableRawMode\<close> writes it over the attributes of a cooked terminal; and when
  \<^verbatim>\<open>tcsetattr\<close> fails (here with \<^verbatim>\<open>ENOTTY\<close>, 25) the call is an error.
\<close>

theorem restore_not_noop_counterexample:
  "fst (disableRawMode (init_world cooked_termios [] [])) = Returns () \<and>
   tty (snd (disableRawMode (init_world cooked_termios [] []))) = zero_termios \<and>
   tty (init_world cooked_termios [] []) = cooked_termios \<and>
   zero_termios \<noteq> cooked_termios \<and>
   fst (disableRawMode (init_world cooked_termios [Some 25] [])) = Exits 1"
  by (simp add: prog_defs zero_termios_def cooked_termios_def)

subsection \<open>C5\<close>

text \<open>
  C5 (as amended). In a run of the program the original configuration is captured exactly
  once, by the one call of \<^verbatim>\<open>enableRawMode\<close> in \<^verbatim>\<open>main\<close>, and the stored original is
  not overwritten afterwards: when the process ends, the trace holds one \<^verbatim>\<open>tcgetattr\<close>
  call and \<open>orig_termios\<close> is the snapshot it took (or still zero when it failed).
  \<^verbatim>\<open>enableRawMode\<close> itself has no guard: every call whose capture succeeds stores the
  terminal's current attributes, whatever was stored before.
\<close>

theorem capture_once_per_run:
  "(run_program (init_world A tcs evs) = Some (en, w') \<longrightarrow>
      (\<exists>r. filter is_tcgetattr (trace w') = [Ev_tcgetattr STDIN_FILENO r] \<and>
           orig_termios w' = (case r of None \<Rightarrow> A | Some e \<Rightarrow> zero_termios))) \<and>
   (fst (next_outcome (tc_outcomes v)) = None \<longrightarrow>
      orig_termios (snd (enableRawMode v)) = tty v)"
proof (intro conjI impI)
  let ?w = "init_world A tcs evs"
  assume r: "run_program ?w = Some (en, w')"
  have a: "atexit_fns ?w = []" and i: "trace ?w = []" "tty ?w = A" "orig_termios ?w = zero_termios"
    by (simp_all add: init_world_def)
  from a r show "\<exists>r. filter is_tcgetattr (trace w') = [Ev_tcgetattr STDIN_FILENO r] \<and>
           orig_termios w' = (case r of None \<Rightarrow> A | Some e \<Rightarrow> zero_termios)"
  proof (cases rule: run_program_cases)
    case (capture_fail e)
    with i have "filter is_tcgetattr (trace w') = [Ev_tcgetattr STDIN_FILENO (Some e)] \<and>
           orig_termios w' = (case Some e of None \<Rightarrow> A | Some e \<Rightarrow> zero_termios)"
      by simp
    then show ?thesis by blast
  next
    case (apply_fail e r)
    with i have "filter is_tcgetattr (trace w') = [Ev_tcgetattr STDIN_FILENO None] \<and>
           orig_termios w' = (case None of None \<Rightarrow> A | Some e \<Rightarrow> zero_termios)"
      by (cases r) simp_all
    then show ?thesis by blast
  next
    case (killed io)
    with i io_no_attr_calls(1) [of io]
    have "filter is_tcgetattr (trace w') = [Ev_tcgetattr STDIN_FILENO None] \<and>
           orig_termios w' = (case None of None \<Rightarrow> A | Some e \<Rightarrow> zero_termios)"
      by simp
    then show ?thesis by blast
  next
    case (quit io r)
    with i io_no_attr_calls(1) [of io]
    have "filter is_tcgetattr (trace w') = [Ev_tcgetattr STDIN_FILENO None] \<and>
           orig_termios w' = (case None of None \<Rightarrow> A | Some e \<Rightarrow> zero_termios)"
      by (cases r) simp_all
    then show ?thesis by blast
  qed
next
  assume "fst (next_outcome (tc_outcomes v)) = None"
  then show "orig_termios (snd (enableRawMode v)) = tty v"
    by (cases v rule: enableRawMode_cases) simp_all
qed

theorem capture_once_per_run_witness:
  "run_program (init_world cooked_termios [] [Byte (CHR ''q'')]) =
     Some (Exited 0,
       \<lparr>orig_termios = cooked_termios, atexit_fns = [], tty = cooked_termios, tc_outcomes = [],
        stdin_events = [], errno = 0,
        trace = [Ev_tcgetattr STDIN_FILENO None, Ev_atexit DisableRawMode,
                 Ev_tcsetattr STDIN_FILENO TCSAFLUSH (raw_termios cooked_termios) None,
                 Ev_read (Byte (CHR ''q'')),
                 Ev_printf (''113 ('' @ [CHR 0x27, CHR ''q'', CHR 0x27] @ '')'' @ crlf),
                 Ev_tcsetattr STDIN_FILENO TCSAFLUSH cooked_termios None]\<rparr>) \<and>
   fst (next_outcome (tc_outcomes (init_world cooked_termios [] []))) = None \<and>
   orig_termios (snd (enableRawMode (init_world cooked_termios [] []))) = cooked_termios \<and>
   (\<exists>r. filter is_tcgetattr
      [Ev_tcgetattr STDIN_FILENO None, Ev_atexit DisableRawMode,
       Ev_tcsetattr STDIN_FILENO TCSAFLUSH (raw_termios cooked_termios) None,
       Ev_read (Byte (CHR ''q'')),
       Ev_printf (''113 ('' @ [CHR 0x27, CHR ''q'', CHR 0x27] @ '')'' @ crlf),
       Ev_tcsetattr STDIN_FILENO TCSAFLUSH cooked_termios None] = [Ev_tcgetattr STDIN_FILENO r])"
proof -
  note r = run_quit [of cooked_termios]
  have n: "fst (next_outcome (tc_outcomes (init_world cooked_termios [] []))) = None"
    and t: "tty (init_world cooked_termios [] []) = cooked_termios"
    by (simp_all add: init_world_def)
  from capture_once_per_run [of cooked_termios "[]" "[Byte (CHR ''q'')]" _ _
      "init_world cooked_termios [] []"] r n t
  show ?thesis by simp
qed

text \<open>
  C5 as stated fails for a sequence of two \<^verbatim>\<open>enableRawMode\<close> calls: the second capture
  overwrites the stored original with the raw attributes the first call applied.
\<close>

theorem second_capture_overwrites_counterexample:
  "fst (enableRawMode (init_world cooked_termios [] [])) = Returns () \<and>
   orig_termios (snd (enableRawMode (init_world cooked_termios [] []))) = cooked_termios \<and>
   fst (enableRawMode (snd (enableRawMode (init_world cooked_termios [] [])))) = Returns () \<and>
   orig_termios (snd (enableRawMode (snd (enableRawMode (init_world cooked_termios [] []))))) =
     raw_termios cooked_termios \<and>
   raw_termios cooked_termios \<noteq> cooked_termios"
  by (simp add: raw_changes_cooked) (simp add: prog_defs)

subsection \<open>C6\<close>

text \<open>
  C6 (as amended). For a run from the initial state: when the capture fails, the process
  ends with status 1 after the one diagnostic \<^verbatim>\<open>tcgetattr\<close>; when applying the raw
  configuration fails, it ends with status 1, the first diagnostic is \<^verbatim>\<open>tcsetattr\<close> and
  no byte has been read (startup is aborted). Whenever the process exits, the status is
  0 or 1; it is 0 exactly when no attribute call failed, exactly when nothing was written
  to standard error, and then the byte \<open>q\<close> has been read. When raw mode was entered and
  \<open>q\<close> arrives (after bytes other than \<open>q\<close>, timeouts, ends of file or read errors), the
  process exits after reading it, with status 0 when the restoring \<^verbatim>\<open>tcsetattr\<close> at exit
  succeeds and with status 1 when it fails.
\<close>

theorem exit_status:
  "(fst (next_outcome tcs) = Some e \<longrightarrow>
      run_program (init_world A tcs evs) =
        Some (Exited 1,
          (init_world A tcs evs)\<lparr>tc_outcomes := snd (next_outcome tcs), errno := e,
            trace := [Ev_tcgetattr STDIN_FILENO (Some e), Ev_perror ''tcgetattr'' e]\<rparr>)) \<and>
   (fst (next_outcome tcs) = None \<and> fst (next_outcome (snd (next_outcome tcs))) = Some e \<longrightarrow>
      (\<exists>w'. run_program (init_world A tcs evs) = Some (Exited 1, w') \<and>
         filter is_read (trace w') = [] \<and>
         hd (stderr_of (trace w')) = Ev_perror ''tcsetattr'' e)) \<and>
   (run_program (init_world A tcs evs) = Some (Exited st, w') \<longrightarrow>
      (st = 0 \<or> st = 1) \<and>
      (st = 0 \<longleftrightarrow> filter failed_call (trace w') = []) \<and>
      (st = 0 \<longleftrightarrow> stderr_of (trace w') = []) \<and>
      (st = 0 \<longrightarrow> Ev_read (Byte (CHR ''q'')) \<in> set (trace w'))) \<and>
   (fst (enableRawMode (init_world A tcs evs)) = Returns () \<and>
    evs = pre @ Byte (CHR ''q'') # post \<and> Byte (CHR ''q'') \<notin> set pre \<and> Signal \<notin> set pre \<longrightarrow>
      (\<exists>w'. run_program (init_world A tcs evs) =
         Some (Exited
                 (case fst (next_outcome (tc_outcomes (snd (enableRawMode (init_world A tcs evs)))))
                  of None \<Rightarrow> 0 | Some e' \<Rightarrow> 1), w') \<and>
         Ev_read (Byte (CHR ''q'')) \<in> set (trace w')))"
proof (intro conjI impI)
  let ?w = "init_world A tcs evs"
  have a: "atexit_fns ?w = []" and i: "trace ?w = []" "tty ?w = A" "tc_outcomes ?w = tcs"
    "stdin_events ?w = evs"
    by (simp_all add: init_world_def)
  {
    assume "fst (next_outcome tcs) = Some e"
    then have n: "next_outcome (tc_outcomes ?w) = (Some e, snd (next_outcome tcs))"
      using i by (metis prod.collapse)
    from enableRawMode_capture_fail [OF n] a i
    show "run_program ?w =
        Some (Exited 1,
          ?w\<lparr>tc_outcomes := snd (next_outcome tcs), errno := e,
            trace := [Ev_tcgetattr STDIN_FILENO (Some e), Ev_perror ''tcgetattr'' e]\<rparr>)"
      by (simp add: run_program_def main_def exit_no_handlers)
  }
  {
    assume h: "fst (next_outcome tcs) = None \<and> fst (next_outcome (snd (next_outcome tcs))) = Some e"
    then have n0: "next_outcome (tc_outcomes ?w) = (None, snd (next_outcome tcs))"
      and n1: "next_outcome (snd (next_outcome tcs)) =
                 (Some e, snd (next_outcome (snd (next_outcome tcs))))"
      using i by (metis prod.collapse)+
    note en = enableRawMode_apply_fail [OF n0 n1]
    let ?w1 = "snd (enableRawMode ?w)"
    from en a have h1: "atexit_fns ?w1 = [DisableRawMode]" by simp
    from en have rp: "run_program ?w = Some (exit 1 ?w1)"
      by (simp add: run_program_def main_def)
    from h1 obtain r rest where
      x: "fst (exit 1 ?w1) = Exited (case r of None \<Rightarrow> 1 | Some e \<Rightarrow> 1)"
      "trace (snd (exit 1 ?w1)) =
         trace ?w1 @ Ev_tcsetattr STDIN_FILENO TCSAFLUSH (orig_termios ?w1) r # diagnostic ''tcsetattr'' r"
      by (rule exit_restore [of ?w1 1]) blast
    from x(1) have "fst (exit 1 ?w1) = Exited 1"
      by (cases r) simp_all
    moreover from x(2) en i have "filter is_read (trace (snd (exit 1 ?w1))) = []"
      "hd (stderr_of (trace (snd (exit 1 ?w1)))) = Ev_perror ''tcsetattr'' e"
      by (cases r; simp add: stderr_of_def)+
    ultimately have "run_program ?w = Some (Exited 1, snd (exit 1 ?w1)) \<and>
         filter is_read (trace (snd (exit 1 ?w1))) = [] \<and>
         hd (stderr_of (trace (snd (exit 1 ?w1)))) = Ev_perror ''tcsetattr'' e"
      using rp by (metis prod.collapse)
    then show "\<exists>w'. run_program ?w = Some (Exited 1, w') \<and>
         filter is_read (trace w') = [] \<and>
         hd (stderr_of (trace w')) = Ev_perror ''tcsetattr'' e"
      by blast
  }
  {
    assume r: "run_program ?w = Some (Exited st, w')"
    from a r have "(st = 0 \<or> st = 1) \<and>
      (st = 0 \<longleftrightarrow> filter failed_call (trace w') = []) \<and>
      (st = 0 \<longleftrightarrow> stderr_of (trace w') = []) \<and>
      (st = 0 \<longrightarrow> Ev_read (Byte (CHR ''q'')) \<in> set (trace w'))"
    proof (cases rule: run_program_cases)
      case (capture_fail e)
      with i show ?thesis by (simp add: stderr_of_def)
    next
      case (apply_fail e r)
      with i show ?thesis by (simp add: stderr_of_def)
    next
      case (killed io)
      then show ?thesis by simp
    next
      case (quit io r)
      with i io_no_attr_calls(3) [of io] io_no_failed_call [of io] failed_iff_diagnostic [of _ _ _ r]
      show ?thesis
        by (cases r) (simp_all add: stderr_of_def)
    qed
    then show "st = 0 \<or> st = 1" "st = 0 \<longleftrightarrow> filter failed_call (trace w') = []"
      "st = 0 \<longleftrightarrow> stderr_of (trace w') = []"
      "st = 0 \<Longrightarrow> Ev_read (Byte (CHR ''q'')) \<in> set (trace w')"
      by blast+
  }
  {
    assume h: "fst (enableRawMode ?w) = Returns () \<and>
      evs = pre @ Byte (CHR ''q'') # post \<and> Byte (CHR ''q'') \<notin> set pre \<and> Signal \<notin> set pre"
    with i have s: "stdin_events ?w = pre @ Byte (CHR ''q'') # post" by simp
    from run_program_quits [OF a _ s] h obtain w2 where
      ml: "main_loop (snd (enableRawMode ?w)) = Some (Returns 0, w2)"
      and w2: "run_program ?w = Some (exit 0 w2)" "atexit_fns w2 = [DisableRawMode]"
        "tc_outcomes w2 = tc_outcomes (snd (enableRawMode ?w))"
      by blast
    from main_loop_events [OF ml] obtain io where
      io: "trace w2 = trace (snd (enableRawMode ?w)) @ io" "Ev_read (Byte (CHR ''q'')) \<in> set io"
      by auto
    from w2(2) obtain r rest where
      r: "next_outcome (tc_outcomes w2) = (r, rest)"
        "fst (exit 0 w2) = Exited (case r of None \<Rightarrow> 0 | Some e \<Rightarrow> 1)"
        "trace (snd (exit 0 w2)) =
           trace w2 @ Ev_tcsetattr STDIN_FILENO TCSAFLUSH (orig_termios w2) r # diagnostic ''tcsetattr'' r"
      by (rule exit_restore [of w2 0]) blast
    from r(1) w2(3) have "fst (next_outcome (tc_outcomes (snd (enableRawMode ?w)))) = r"
      by simp
    with r(2) w2(1) have "run_program ?w =
       Some (Exited (case fst (next_outcome (tc_outcomes (snd (enableRawMode ?w))))
                     of None \<Rightarrow> 0 | Some e' \<Rightarrow> 1), snd (exit 0 w2))"
      by (metis prod.collapse)
    moreover from r(3) io have "Ev_read (Byte (CHR ''q'')) \<in> set (trace (snd (exit 0 w2)))"
      by simp
    ultimately show "\<exists>w'. run_program ?w =
         Some (Exited (case fst (next_outcome (tc_outcomes (snd (enableRawMode ?w))))
                       of None \<Rightarrow> 0 | Some e' \<Rightarrow> 1), w') \<and>
         Ev_read (Byte (CHR ''q'')) \<in> set (trace w')"
      by blast
  }
qed

theorem exit_status_witness:
  "fst (next_outcome [Some 25]) = Some 25 \<and>
   map_option fst (run_program (init_world cooked_termios [Some 25] [Byte (CHR ''q'')])) =
     Some (Exited 1) \<and>
   fst (next_outcome [None, Some 5]) = None \<and>
   fst (next_outcome (snd (next_outcome [None, Some 5]))) = Some 5 \<and>
   (\<exists>w'. run_program (init_world cooked_termios [None, Some 5] [Byte (CHR ''q'')]) =
      Some (Exited 1, w') \<and> filter is_read (trace w') = [] \<and>
      hd (stderr_of (trace w')) = Ev_perror ''tcsetattr'' 5) \<and>
   fst (enableRawMode (init_world cooked_termios [] [Byte (CHR ''q'')])) = Returns () \<and>
   map_option fst (run_program (init_world cooked_termios [] [Byte (CHR ''q'')])) =
     Some (Exited 0) \<and>
   (\<exists>w'. run_program (init_world cooked_termios [] [Byte (CHR ''q'')]) = Some (Exited 0, w') \<and>
      stderr_of (trace w') = [] \<and> filter failed_call (trace w') = []) \<and>
   fst (enableRawMode (init_world cooked_termios [] [Timeout, Byte (CHR ''q''), Eof])) =
     Returns () \<and>
   (\<exists>w'. run_program (init_world cooked_termios [] [Timeout, Byte (CHR ''q''), Eof]) =
      Some (Exited 0, w') \<and> Ev_read (Byte (CHR ''q'')) \<in> set (trace w')) \<and>
   fst (enableRawMode
     (init_world cooked_termios [None, None, Some 5] [Timeout, Byte (CHR ''q''), Eof])) =
     Returns () \<and>
   (\<exists>w'. run_program
       (init_world cooked_termios [None, None, Some 5] [Timeout, Byte (CHR ''q''), Eof]) =
      Some (Exited 1, w') \<and> Ev_read (Byte (CHR ''q'')) \<in> set (trace w'))"
proof -
  have n: "fst (next_outcome [Some 25]) = Some (25::nat)"
    "fst (next_outcome [None, Some (5::nat)]) = None \<and>
     fst (next_outcome (snd (next_outcome [None, Some (5::nat)]))) = Some 5"
    by simp_all
  have f: "fst (enableRawMode (init_world cooked_termios [] [Byte (CHR ''q'')])) = Returns ()"
    "fst (enableRawMode (init_world cooked_termios [] [Timeout, Byte (CHR ''q''), Eof])) =
       Returns ()"
    "fst (enableRawMode
       (init_world cooked_termios [None, None, Some 5] [Timeout, Byte (CHR ''q''), Eof])) =
       Returns ()"
    by (simp_all add: prog_defs)
  have t: "fst (next_outcome (tc_outcomes (snd (enableRawMode
       (init_world cooked_termios [] [Timeout, Byte (CHR ''q''), Eof]))))) = None"
    "fst (next_outcome (tc_outcomes (snd (enableRawMode
       (init_world cooked_termios [None, None, Some 5] [Timeout, Byte (CHR ''q''), Eof]))))) =
     Some 5"
    by (simp_all add: prog_defs)
  note q = run_quit [of cooked_termios]
  have c1: "map_option fst (run_program (init_world cooked_termios [Some 25] [Byte (CHR ''q'')])) =
     Some (Exited 1)"
    using exit_status [of "[Some 25]" 25 cooked_termios "[Byte (CHR ''q'')]"] n(1) by simp
  have c2: "\<exists>w'. run_program (init_world cooked_termios [None, Some 5] [Byte (CHR ''q'')]) =
      Some (Exited 1, w') \<and> filter is_read (trace w') = [] \<and>
      hd (stderr_of (trace w')) = Ev_perror ''tcsetattr'' 5"
    using exit_status [of "[None, Some 5]" 5 cooked_termios "[Byte (CHR ''q'')]"] n(2) by blast
  have c3: "\<exists>w'. run_program (init_world cooked_termios [] [Byte (CHR ''q'')]) = Some (Exited 0, w') \<and>
      stderr_of (trace w') = [] \<and> filter failed_call (trace w') = []"
    using exit_status [of "[]" _ cooked_termios "[Byte (CHR ''q'')]" 0] q by blast
  have c4: "\<exists>w'. run_program (init_world cooked_termios [] [Timeout, Byte (CHR ''q''), Eof]) =
      Some (Exited 0, w') \<and> Ev_read (Byte (CHR ''q'')) \<in> set (trace w')"
    using exit_status [where tcs = "[]" and A = cooked_termios
        and evs = "[Timeout, Byte (CHR ''q''), Eof]" and pre = "[Timeout]" and post = "[Eof]"]
      f(2) t(1)
    by simp
  have c5: "\<exists>w'. run_program
       (init_world cooked_termios [None, None, Some 5] [Timeout, Byte (CHR ''q''), Eof]) =
      Some (Exited 1, w') \<and> Ev_read (Byte (CHR ''q'')) \<in> set (trace w')"
    using exit_status [where tcs = "[None, None, Some 5]" and A = cooked_termios
        and evs = "[Timeout, Byte (CHR ''q''), Eof]" and pre = "[Timeout]" and post = "[Eof]"]
      f(3) t(2)
    by simp
  from n f q c1 c2 c3 c4 c5 show ?thesis by simp
qed

text \<open>
  C6 as stated fails where it says that the process exits with code 0 when the quit key is
  observed: when the restoring \<^verbatim>\<open>tcsetattr\<close> at exit fails (here with \<^verbatim>\<open>EIO\<close>, 5),
  \<open>q\<close> has been read and the process exits with status 1, the terminal still raw.
\<close>

theorem quit_with_status_1_counterexample:
  "run_program (init_world cooked_termios [None, None, Some 5] [Byte (CHR ''q'')]) =
     Some (Exited 1,
       \<lparr>orig_termios = cooked_termios, atexit_fns = [], tty = raw_termios cooked_termios,
        tc_outcomes = [], stdin_events = [], errno = 5,
        trace = [Ev_tcgetattr STDIN_FILENO None, Ev_atexit DisableRawMode,
                 Ev_tcsetattr STDIN_FILENO TCSAFLUSH (raw_termios cooked_termios) None,
                 Ev_read (Byte (CHR ''q'')),
                 Ev_printf (''113 ('' @ [CHR 0x27, CHR ''q'', CHR 0x27] @ '')'' @ crlf),
                 Ev_tcsetattr STDIN_FILENO TCSAFLUSH cooked_termios (Some 5),
                 Ev_perror ''tcsetattr'' 5]\<rparr>)"
  by (rule run_quit_restore_fails)

subsection \<open>C7\<close>

text \<open>
  C7. When the \<^verbatim>\<open>tcsetattr\<close> of \<^verbatim>\<open>disableRawMode\<close> fails while \<^verbatim>\<open>exit\<close> runs the
  handler, \<^verbatim>\<open>disableRawMode\<close> writes the diagnostic \<^verbatim>\<open>tcsetattr\<close> to standard error and
  calls \<^verbatim>\<open>exit(1)\<close>; the process still ends, with status 1 whatever the status was, and
  the diagnostic is the last line on standard error.
\<close>

theorem restore_failure_exits:
  assumes "atexit_fns w = [DisableRawMode]"
    and "next_outcome (tc_outcomes w) = (Some e, rest)"
  shows "disableRawMode w =
           (Exits 1,
            w\<lparr>tc_outcomes := rest, errno := e,
              trace := trace w @ [Ev_tcsetattr STDIN_FILENO TCSAFLUSH (orig_termios w) (Some e),
                                  Ev_perror ''tcsetattr'' e]\<rparr>) \<and>
         exit st w =
           (Exited 1,
            w\<lparr>atexit_fns := [], tc_outcomes := rest, errno := e,
              trace := trace w @ [Ev_tcsetattr STDIN_FILENO TCSAFLUSH (orig_termios w) (Some e),
                                  Ev_perror ''tcsetattr'' e]\<rparr>) \<and>
         stderr_of (trace (snd (exit st w))) =
           stderr_of (trace w) @ [Ev_perror ''tcsetattr'' e]"
proof -
  note d = disableRawMode_fail [OF assms(2)]
  note x = exit_restore_fail [OF assms]
  have "stderr_of (trace (snd (exit st w))) = stderr_of (trace w) @ [Ev_perror ''tcsetattr'' e]"
    unfolding x by (simp add: stderr_of_def)
  with d x show ?thesis by simp
qed

theorem restore_failure_exits_witness:
  "atexit_fns (snd (enableRawMode (init_world cooked_termios [None, None, Some 5] []))) =
     [DisableRawMode] \<and>
   next_outcome (tc_outcomes (snd (enableRawMode (init_world cooked_termios [None, None, Some 5] []))))
     = (Some 5, []) \<and>
   fst (exit 0 (snd (enableRawMode (init_world cooked_termios [None, None, Some 5] [])))) = Exited 1 \<and>
   stderr_of (trace (snd (exit 0 (snd (enableRawMode
     (init_world cooked_termios [None, None, Some 5] []))))))
     = [Ev_perror ''tcsetattr'' 5]"
proof -
  let ?w = "snd (enableRawMode (init_world cooked_termios [None, None, Some 5] []))"
  have a: "atexit_fns ?w = [DisableRawMode]"
    and n: "next_outcome (tc_outcomes ?w) = (Some 5, [])"
    and s: "stderr_of (trace ?w) = []"
    by (simp_all add: prog_defs stderr_of_def)
  from restore_failure_exits [OF a n, of 0] a n s show ?thesis
    by (simp add: stderr_of_def)
qed

subsection \<open>C8\<close>

text \<open>
  C8 (as amended). In one turn of the loop, \<^verbatim>\<open>read\<close> returns 1 and stores the byte when
  one arrived, returns 0 on a timeout or end of file and -1 on an error, leaving the buffer
  at NUL. \<^verbatim>\<open>main\<close> does not look at the return value: a byte is printed with its code
  (and ends the loop when it is \<open>q\<close>); a timeout, an end of file and a read error all print
  the code 0 and continue. No failure is reported for a read error.
\<close>

theorem read_result_ignored:
  assumes "stdin_events w = ev # rest" and "loop_body w = (r, w')"
  shows "case ev of
           Byte b \<Rightarrow>
             fst (read STDIN_FILENO (CHR 0x00) w) = Returns (1, b) \<and>
             r = Returns (b = CHR ''q'') \<and>
             trace w' = trace w @ [Ev_read (Byte b),
               Ev_printf (if iscntrl (int_of_char b) then fmt_d (int_of_char b) @ crlf
                  else fmt_d (int_of_char b) @ '' ('' @ [CHR 0x27, b, CHR 0x27] @ '')'' @ crlf)]
         | Signal \<Rightarrow> r = Killed
         | ReadError e \<Rightarrow>
             fst (read STDIN_FILENO (CHR 0x00) w) = Returns (- 1, CHR 0x00) \<and>
             r = Returns False \<and>
             trace w' = trace w @ [Ev_read ev, Ev_printf (''0'' @ crlf)]
         | _ \<Rightarrow>
             fst (read STDIN_FILENO (CHR 0x00) w) = Returns (0, CHR 0x00) \<and>
             r = Returns False \<and>
             trace w' = trace w @ [Ev_read ev, Ev_printf (''0'' @ crlf)]"
  using assms
  by (cases ev) (auto simp: loop_defs Let_def fmt_d_0)

theorem read_result_ignored_witness:
  "stdin_events (init_world cooked_termios [] [ReadError 5, Byte (CHR ''q'')]) =
     ReadError 5 # [Byte (CHR ''q'')] \<and>
   fst (loop_body (init_world cooked_termios [] [ReadError 5, Byte (CHR ''q'')])) = Returns False \<and>
   trace (snd (loop_body (init_world cooked_termios [] [ReadError 5, Byte (CHR ''q'')]))) =
     [Ev_read (ReadError 5), Ev_printf (''0'' @ crlf)]"
proof -
  let ?w = "init_world cooked_termios [] [ReadError 5, Byte (CHR ''q'')]"
  have a: "stdin_events ?w = ReadError 5 # [Byte (CHR ''q'')]" and t: "trace ?w = []"
    by (simp_all add: init_world_def)
  have b: "loop_body ?w = (fst (loop_body ?w), snd (loop_body ?w))"
    by simp
  from read_result_ignored [OF a b] a t show ?thesis
    by simp
qed

text \<open>
  C8 as stated fails: a read error (here \<^verbatim>\<open>EIO\<close>, 5) and a timeout give the same turn
  of the loop. Both continue, both print \<open>0\<close>, and nothing is written to standard error.
\<close>

theorem read_error_as_timeout_counterexample:
  "fst (loop_body (init_world cooked_termios [] [ReadError 5])) = Returns False \<and>
   fst (loop_body (init_world cooked_termios [] [Timeout])) = Returns False \<and>
   stdout_of (trace (snd (loop_body (init_world cooked_termios [] [ReadError 5])))) = ''0'' @ crlf \<and>
   stdout_of (trace (snd (loop_body (init_world cooked_termios [] [Timeout])))) = ''0'' @ crlf \<and>
   stderr_of (trace (snd (loop_body (init_world cooked_termios [] [ReadError 5])))) = []"
  by (simp add: init_world_def loop_defs Let_def fmt_d_0 stdout_of_def stderr_of_def)

subsection \<open>C9\<close>

text \<open>
  C9. From a state with no handler registered: when the capture fails, \<^verbatim>\<open>enableRawMode\<close>
  ends in \<^verbatim>\<open>exit(1)\<close> with no handler registered, so \<^verbatim>\<open>exit\<close> runs no restore. When
  the capture succeeds, the handler is registered after the capture and before the raw
  configuration is applied, \<open>orig_termios\<close> holds the captured attributes, and \<^verbatim>\<open>exit\<close>
  from the resulting state (also when applying the raw configuration failed) applies
  exactly the captured attributes. In every run that ends, the \<^verbatim>\<open>tcsetattr\<close> calls are
  a prefix of: the raw configuration, then the captured original.
\<close>

theorem handler_registered_after_capture:
  assumes "atexit_fns w = []"
  shows
    "(fst (next_outcome (tc_outcomes w)) \<noteq> None \<longrightarrow>
        fst (enableRawMode w) = Exits 1 \<and>
        atexit_fns (snd (enableRawMode w)) = [] \<and>
        exit 1 (snd (enableRawMode w)) = (Exited 1, snd (enableRawMode w))) \<and>
     (fst (next_outcome (tc_outcomes w)) = None \<longrightarrow>
        atexit_fns (snd (enableRawMode w)) = [DisableRawMode] \<and>
        orig_termios (snd (enableRawMode w)) = tty w \<and>
        (\<exists>r. take 3 (drop (length (trace w)) (trace (snd (enableRawMode w)))) =
           [Ev_tcgetattr STDIN_FILENO None, Ev_atexit DisableRawMode,
            Ev_tcsetattr STDIN_FILENO TCSAFLUSH (raw_termios (tty w)) r]) \<and>
        (\<exists>r. trace (snd (exit st (snd (enableRawMode w)))) =
           trace (snd (enableRawMode w)) @
           Ev_tcsetattr STDIN_FILENO TCSAFLUSH (tty w) r # diagnostic ''tcsetattr'' r)) \<and>
     (run_program w = Some (en, w') \<longrightarrow>
        (\<exists>n r1 r2. filter is_tcsetattr (drop (length (trace w)) (trace w')) =
           take n [Ev_tcsetattr STDIN_FILENO TCSAFLUSH (raw_termios (tty w)) r1,
                   Ev_tcsetattr STDIN_FILENO TCSAFLUSH (tty w) r2]))"
proof (intro conjI impI)
  let ?w1 = "snd (enableRawMode w)"
  {
    assume "fst (next_outcome (tc_outcomes w)) \<noteq> None"
    then have "fst (enableRawMode w) = Exits 1 \<and> atexit_fns ?w1 = []"
      using assms by (cases w rule: enableRawMode_cases) simp_all
    then show "fst (enableRawMode w) = Exits 1" "atexit_fns ?w1 = []"
      "exit 1 ?w1 = (Exited 1, ?w1)"
      by (simp_all add: exit_no_handlers)
  }
  {
    assume n: "fst (next_outcome (tc_outcomes w)) = None"
    then have reg: "atexit_fns ?w1 = [DisableRawMode] \<and> orig_termios ?w1 = tty w \<and>
        (\<exists>r. take 3 (drop (length (trace w)) (trace ?w1)) =
           [Ev_tcgetattr STDIN_FILENO None, Ev_atexit DisableRawMode,
            Ev_tcsetattr STDIN_FILENO TCSAFLUSH (raw_termios (tty w)) r])"
      using assms by (cases w rule: enableRawMode_cases) simp_all
    then show "atexit_fns ?w1 = [DisableRawMode]" "orig_termios ?w1 = tty w"
      "\<exists>r. take 3 (drop (length (trace w)) (trace ?w1)) =
           [Ev_tcgetattr STDIN_FILENO None, Ev_atexit DisableRawMode,
            Ev_tcsetattr STDIN_FILENO TCSAFLUSH (raw_termios (tty w)) r]"
      by blast+
    from reg obtain r rest where
      "trace (snd (exit st ?w1)) =
         trace ?w1 @ Ev_tcsetattr STDIN_FILENO TCSAFLUSH (orig_termios ?w1) r # diagnostic ''tcsetattr'' r"
      by (elim conjE exit_restore [of ?w1 st]) blast
    with reg show "\<exists>r. trace (snd (exit st ?w1)) =
           trace ?w1 @ Ev_tcsetattr STDIN_FILENO TCSAFLUSH (tty w) r # diagnostic ''tcsetattr'' r"
      by auto
  }
  {
    let ?raw = "\<lambda>r. Ev_tcsetattr STDIN_FILENO TCSAFLUSH (raw_termios (tty w)) r"
    let ?orig = "\<lambda>r. Ev_tcsetattr STDIN_FILENO TCSAFLUSH (tty w) r"
    have dg: "\<And>s r. filter is_tcsetattr (diagnostic s r) = []"
      by (case_tac r) simp_all
    assume "run_program w = Some (en, w')"
    with assms have "\<exists>r1 r2. filter is_tcsetattr (drop (length (trace w)) (trace w')) = [] \<or>
       filter is_tcsetattr (drop (length (trace w)) (trace w')) = [?raw r1] \<or>
       filter is_tcsetattr (drop (length (trace w)) (trace w')) = [?raw r1, ?orig r2]"
    proof (cases rule: run_program_cases)
      case (capture_fail e)
      then show ?thesis by simp
    next
      case (apply_fail e r)
      then have "filter is_tcsetattr (drop (length (trace w)) (trace w')) = [?raw (Some e), ?orig r]"
        by (simp add: dg)
      then show ?thesis by blast
    next
      case (killed io)
      with io_no_attr_calls(2) [of io]
      have "filter is_tcsetattr (drop (length (trace w)) (trace w')) = [?raw None]"
        by simp
      then show ?thesis by blast
    next
      case (quit io r)
      with io_no_attr_calls(2) [of io]
      have "filter is_tcsetattr (drop (length (trace w)) (trace w')) = [?raw None, ?orig r]"
        by (simp add: dg)
      then show ?thesis by blast
    qed
    then obtain r1 r2 where
      "filter is_tcsetattr (drop (length (trace w)) (trace w')) = take 0 [?raw r1, ?orig r2] \<or>
       filter is_tcsetattr (drop (length (trace w)) (trace w')) = take 1 [?raw r1, ?orig r2] \<or>
       filter is_tcsetattr (drop (length (trace w)) (trace w')) = take 2 [?raw r1, ?orig r2]"
      by auto
    then show "\<exists>n r1 r2. filter is_tcsetattr (drop (length (trace w)) (trace w')) =
           take n [?raw r1, ?orig r2]"
      by blast
  }
qed

theorem handler_registered_after_capture_witness:
  "atexit_fns (init_world cooked_termios [None, Some 5] []) = [] \<and>
   fst (next_outcome (tc_outcomes (init_world cooked_termios [None, Some 5] []))) = None \<and>
   fst (enableRawMode (init_world cooked_termios [None, Some 5] [])) = Exits 1 \<and>
   orig_termios (snd (enableRawMode (init_world cooked_termios [None, Some 5] []))) =
     cooked_termios \<and>
   atexit_fns (snd (enableRawMode (init_world cooked_termios [None, Some 5] []))) =
     [DisableRawMode] \<and>
   run_program (init_world cooked_termios [None, Some 5] []) =
     Some (Exited 1,
       \<lparr>orig_termios = cooked_termios, atexit_fns = [], tty = cooked_termios, tc_outcomes = [],
        stdin_events = [], errno = 5,
        trace = [Ev_tcgetattr STDIN_FILENO None, Ev_atexit DisableRawMode,
                 Ev_tcsetattr STDIN_FILENO TCSAFLUSH (raw_termios cooked_termios) (Some 5),
                 Ev_perror ''tcsetattr'' 5,
                 Ev_tcsetattr STDIN_FILENO TCSAFLUSH cooked_termios None]\<rparr>) \<and>
   (\<exists>n r1 r2.
      [Ev_tcsetattr STDIN_FILENO TCSAFLUSH (raw_termios cooked_termios) (Some 5),
       Ev_tcsetattr STDIN_FILENO TCSAFLUSH cooked_termios None] =
      take n [Ev_tcsetattr STDIN_FILENO TCSAFLUSH (raw_termios cooked_termios) r1,
              Ev_tcsetattr STDIN_FILENO TCSAFLUSH cooked_termios r2]) \<and>
   atexit_fns (init_world cooked_termios [Some 25] []) = [] \<and>
   fst (next_outcome (tc_outcomes (init_world cooked_termios [Some 25] []))) \<noteq> None \<and>
   atexit_fns (snd (enableRawMode (init_world cooked_termios [Some 25] []))) = []"
proof -
  let ?w = "init_world cooked_termios [None, Some 5] []"
  let ?v = "init_world cooked_termios [Some 25] []"
  have a: "atexit_fns ?w = []" "atexit_fns ?v = []"
    and n: "fst (next_outcome (tc_outcomes ?w)) = None"
      "fst (next_outcome (tc_outcomes ?v)) \<noteq> None"
    and t: "tty ?w = cooked_termios" "trace ?w = []"
    and f: "fst (enableRawMode ?w) = Exits 1"
    by (simp_all add: prog_defs)
  note r = run_apply_fails [of cooked_termios 5 "[]"]
  note at_w = handler_registered_after_capture [OF a(1), where en = "Exited 1" and
      w' = "\<lparr>orig_termios = cooked_termios, atexit_fns = [], tty = cooked_termios,
        tc_outcomes = [], stdin_events = [], errno = 5,
        trace = [Ev_tcgetattr STDIN_FILENO None, Ev_atexit DisableRawMode,
                 Ev_tcsetattr STDIN_FILENO TCSAFLUSH (raw_termios cooked_termios) (Some 5),
                 Ev_perror ''tcsetattr'' 5,
                 Ev_tcsetattr STDIN_FILENO TCSAFLUSH cooked_termios None]\<rparr>"]
  from at_w n(1) have c2: "orig_termios (snd (enableRawMode ?w)) = tty ?w \<and>
      atexit_fns (snd (enableRawMode ?w)) = [DisableRawMode]"
    by blast
  from at_w r t have c3: "\<exists>n r1 r2.
      [Ev_tcsetattr STDIN_FILENO TCSAFLUSH (raw_termios cooked_termios) (Some 5),
       Ev_tcsetattr STDIN_FILENO TCSAFLUSH cooked_termios None] =
      take n [Ev_tcsetattr STDIN_FILENO TCSAFLUSH (raw_termios cooked_termios) r1,
              Ev_tcsetattr STDIN_FILENO TCSAFLUSH cooked_termios r2]"
    by simp
  from handler_registered_after_capture [OF a(2)] n(2)
  have c1: "atexit_fns (snd (enableRawMode ?v)) = []"
    by blast
  from a n t f r c1 c2 c3 show ?thesis
    by (intro conjI) simp_all
qed

subsection \<open>C10\<close>

text \<open>
  C10 (as amended). The loop returns only after reading the byte \<open>q\<close>: when \<open>main_loop\<close>
  ends, either it returns 0 and the input consumed is a sequence without \<open>q\<close> followed by
  \<open>q\<close>, or the process has been killed by a signal, the last thing the input held. When
  the input holds neither \<open>q\<close> nor a terminating signal, the loop never ends. A timeout,
  an end of file or a read error leaves the byte at NUL, prints the code 0 and the loop
  continues.
\<close>

theorem loop_ends_on_q_or_kill:
  "(main_loop w = Some (r, w') \<longrightarrow>
      (\<exists>pre ev. stdin_events w = pre @ ev # stdin_events w' \<and>
         Byte (CHR ''q'') \<notin> set pre \<and> Signal \<notin> set pre \<and>
         (r = Returns 0 \<and> ev = Byte (CHR ''q'') \<or> r = Killed \<and> ev = Signal))) \<and>
   (Byte (CHR ''q'') \<notin> set (stdin_events u) \<and> Signal \<notin> set (stdin_events u) \<longrightarrow>
      main_loop u = None) \<and>
   (stdin_events v = ev' # rest \<and> (ev' = Timeout \<or> ev' = Eof \<or> ev' = ReadError e) \<longrightarrow>
      fst (loop_body v) = Returns False \<and>
      stdin_events (snd (loop_body v)) = rest \<and>
      trace (snd (loop_body v)) = trace v @ [Ev_read ev', Ev_printf (''0'' @ crlf)])"
proof (intro conjI impI)
  assume a: "main_loop w = Some (r, w')"
  from main_loop_consumes [OF a]
  show "\<exists>pre ev. stdin_events w = pre @ ev # stdin_events w' \<and>
         Byte (CHR ''q'') \<notin> set pre \<and> Signal \<notin> set pre \<and>
         (r = Returns 0 \<and> ev = Byte (CHR ''q'') \<or> r = Killed \<and> ev = Signal)" .
next
  assume n: "Byte (CHR ''q'') \<notin> set (stdin_events u) \<and> Signal \<notin> set (stdin_events u)"
  show "main_loop u = None"
  proof (cases "main_loop u")
    case None
    then show ?thesis .
  next
    case (Some y)
    then have "main_loop u = Some (fst y, snd y)" by simp
    from main_loop_consumes [OF this] n show ?thesis by auto
  qed
next
  assume a: "stdin_events v = ev' # rest \<and> (ev' = Timeout \<or> ev' = Eof \<or> ev' = ReadError e)"
  then show "fst (loop_body v) = Returns False" and "stdin_events (snd (loop_body v)) = rest"
    and "trace (snd (loop_body v)) = trace v @ [Ev_read ev', Ev_printf (''0'' @ crlf)]"
    by (auto simp: loop_defs Let_def fmt_d_0)
qed

theorem loop_ends_on_q_or_kill_witness:
  "(\<exists>w'. main_loop (init_world cooked_termios [] [Timeout, Byte (CHR ''q''), Eof]) =
       Some (Returns 0, w') \<and>
     (\<exists>pre. stdin_events (init_world cooked_termios [] [Timeout, Byte (CHR ''q''), Eof]) =
         pre @ Byte (CHR ''q'') # stdin_events w' \<and>
         Byte (CHR ''q'') \<notin> set pre \<and> Signal \<notin> set pre)) \<and>
   Byte (CHR ''q'') \<notin> set (stdin_events (init_world cooked_termios [] [Timeout, ReadError 5])) \<and>
   Signal \<notin> set (stdin_events (init_world cooked_termios [] [Timeout, ReadError 5])) \<and>
   main_loop (init_world cooked_termios [] [Timeout, ReadError 5]) = None \<and>
   stdin_events (init_world cooked_termios [] [Eof, Byte (CHR ''q'')]) = Eof # [Byte (CHR ''q'')] \<and>
   fst (loop_body (init_world cooked_termios [] [Eof, Byte (CHR ''q'')])) = Returns False \<and>
   trace (snd (loop_body (init_world cooked_termios [] [Eof, Byte (CHR ''q'')]))) =
     [Ev_read Eof, Ev_printf (''0'' @ crlf)]"
proof -
  let ?w = "init_world cooked_termios [] [Timeout, Byte (CHR ''q''), Eof]"
  let ?u = "init_world cooked_termios [] [Timeout, ReadError 5]"
  let ?v = "init_world cooked_termios [] [Eof, Byte (CHR ''q'')]"
  have s: "stdin_events ?w = [Timeout] @ Byte (CHR ''q'') # [Eof]"
    and u: "Byte (CHR ''q'') \<notin> set (stdin_events ?u) \<and> Signal \<notin> set (stdin_events ?u)"
    and v: "stdin_events ?v = Eof # [Byte (CHR ''q'')]" "trace ?v = []"
    by (simp_all add: init_world_def)
  from main_loop_quits [OF s] obtain w' where w': "main_loop ?w = Some (Returns 0, w')"
    by auto
  note t = loop_ends_on_q_or_kill [where w = ?w and r = "Returns 0" and w' = w' and u = ?u
      and v = ?v and ev' = Eof and rest = "[Byte (CHR ''q'')]"]
  from t w' have "\<exists>pre. stdin_events ?w = pre @ Byte (CHR ''q'') # stdin_events w' \<and>
         Byte (CHR ''q'') \<notin> set pre \<and> Signal \<notin> set pre"
    by auto
  with w' have c1: "\<exists>w'. main_loop ?w = Some (Returns 0, w') \<and>
     (\<exists>pre. stdin_events ?w = pre @ Byte (CHR ''q'') # stdin_events w' \<and>
         Byte (CHR ''q'') \<notin> set pre \<and> Signal \<notin> set pre)"
    by blast
  from t u have c2: "main_loop ?u = None" by blast
  from t v have c3: "fst (loop_body ?v) = Returns False \<and>
      trace (snd (loop_body ?v)) = [Ev_read Eof, Ev_printf (''0'' @ crlf)]"
    by simp
  from c1 c2 c3 u v show ?thesis by blast
qed

text \<open>
  C10 as stated fails where it says that no condition other than the quit byte ever ends
  the loop: the program installs no signal handler, and a terminating signal that arrives
  while the process waits in \<^verbatim>\<open>read\<close> ends the loop with no \<open>q\<close> read.
\<close>

theorem loop_killed_without_q_counterexample:
  "main_loop (init_world cooked_termios [] [Timeout, Signal]) =
     Some (Killed,
       \<lparr>orig_termios = zero_termios, atexit_fns = [], tty = cooked_termios, tc_outcomes = [],
        stdin_events = [], errno = 0,
        trace = [Ev_read Timeout, Ev_printf (''0'' @ crlf), Ev_read Signal]\<rparr>) \<and>
   Byte (CHR ''q'') \<notin> set [Timeout, Signal]"
  by (subst main_loop.simps)
     (simp add: init_world_def loop_defs Let_def fmt_d_0 main_loop_signal)

end
